theory Spec2Isabelle
  imports Main "HOL-Library.Word"
begin

section \<open>Go values used by the template client\<close>

text \<open>
  The client of \<^verbatim>\<open>main.go\<close> is six functions of one shape: build a request, set two or
  three headers, send it, check the status code, decode the body, check the embedded error
  code. Everything outside that file is an explicit parameter or a small model:
  \<^item> \<^verbatim>\<open>int64\<close> and \<^verbatim>\<open>int\<close> are 64-bit words, read as two's complement with \<open>sint\<close>
    (Go's \<^verbatim>\<open>int\<close> on a 64-bit target);
  \<^item> a Go \<^verbatim>\<open>error\<close> is a value of the datatype \<open>error\<close>, and a function returning
    \<^verbatim>\<open>(T, error)\<close> returns a pair whose second component is \<open>None\<close> for \<^verbatim>\<open>nil\<close>;
  \<^item> \<^verbatim>\<open>client.Do\<close> is a parameter \<open>Do\<close> that maps a request and the state of the world to
    an answer and the next state of the world;
  \<^item> the text layer of \<^verbatim>\<open>encoding/json\<close> (bytes to JSON value and back) is a parameter;
    how a JSON value fills a struct, and which members a struct is written as, follows the
    struct tags of \<^verbatim>\<open>main.go\<close> and is defined here.
\<close>

type_synonym int64 = "64 word"
type_synonym go_int = "64 word"

subsection \<open>Errors\<close>

text \<open>
  \<^verbatim>\<open>fmt.Errorf\<close> without \<^verbatim>\<open>%w\<close> yields an error that is only its text; with \<^verbatim>\<open>%w\<close> it
  yields an error with the formatted text that also wraps the operand.
\<close>

datatype error = errorString string | wrapError string error

fun Error :: "error \<Rightarrow> string" where
  "Error (errorString s) = s"
| "Error (wrapError s e) = s"

fun Unwrap :: "error \<Rightarrow> error option" where
  "Unwrap (errorString s) = None"
| "Unwrap (wrapError s e) = Some e"

text \<open>\<^verbatim>\<open>fmt.Errorf(prefix + "%w", err)\<close>\<close>

definition Errorf_w :: "string \<Rightarrow> error \<Rightarrow> error" where
  "Errorf_w prefix err = wrapError (prefix @ Error err) err"

text \<open>\<^verbatim>\<open>fmt.Errorf(prefix + "%s", s)\<close>\<close>

definition Errorf_s :: "string \<Rightarrow> string \<Rightarrow> error" where
  "Errorf_s prefix s = errorString (prefix @ s)"

subsection \<open>Formatting integers: the verb \<^verbatim>\<open>%d\<close>\<close>

definition digit :: "nat \<Rightarrow> char" where
  "digit d = ''0123456789'' ! d"

function decimal :: "nat \<Rightarrow> string" where
  "decimal n = (if n < 10 then [digit n] else decimal (n div 10) @ [digit (n mod 10)])"
  by pat_completeness auto
termination
  by (relation "measure id") auto

declare decimal.simps [simp del]

definition Itoa :: "int \<Rightarrow> string" where
  "Itoa i = (if i < 0 then CHR ''-'' # decimal (nat (- i)) else decimal (nat i))"

definition Sprintf_d :: "64 word \<Rightarrow> string" where
  "Sprintf_d x = Itoa (sint x)"

section \<open>Data model\<close>

text \<open>
  \<^verbatim>\<open>
  type Template struct {
      TemplateID int64  `json:"templateID,omitempty"`
      Name       string `json:"name"`
      Subject    string `json:"subject"`
      HtmlBody   string `json:"htmlBody"`
      TextBody   string `json:"textBody"`
      Alias      string `json:"alias,omitempty"`
      Active     bool   `json:"active,omitempty"`
  }
  \<close>
\<close>

record Template =
  TemplateID :: int64
  Name :: string
  Subject :: string
  HtmlBody :: string
  TextBody :: string
  Alias :: string
  Active :: bool

text \<open>The zero value of the struct, which \<^verbatim>\<open>var template Template\<close> declares.\<close>

definition zero_Template :: Template where
  "zero_Template =
     \<lparr>TemplateID = 0, Name = [], Subject = [], HtmlBody = [], TextBody = [],
      Alias = [], Active = False\<rparr>"

text \<open>
  \<^verbatim>\<open>TemplatesResponse\<close>: a slice is \<open>None\<close> when it is \<^verbatim>\<open>nil\<close> and \<open>Some xs\<close>
  otherwise.
\<close>

record TemplatesResponse =
  Templates :: "Template list option"
  TotalCount :: go_int

definition zero_TemplatesResponse :: TemplatesResponse where
  "zero_TemplatesResponse = \<lparr>Templates = None, TotalCount = 0\<rparr>"

text \<open>
  \<^verbatim>\<open>PostmarkResponse\<close>; its field \<^verbatim>\<open>TemplateID\<close> is \<open>ResponseTemplateID\<close> here, since
  the selector \<open>TemplateID\<close> is the one of \<open>Template\<close>.
\<close>

record PostmarkResponse =
  ResponseTemplateID :: int64
  ErrorCode :: go_int
  Message :: string

definition zero_PostmarkResponse :: PostmarkResponse where
  "zero_PostmarkResponse = \<lparr>ResponseTemplateID = 0, ErrorCode = 0, Message = []\<rparr>"

section \<open>JSON\<close>

text \<open>
  A JSON document. A number written as an integer literal is \<open>JInt\<close> with its value; a
  number with a fraction or an exponent is \<open>JFloat\<close> with its literal, which no integer
  field accepts. The members of an object keep the order and the duplicates of the text.
\<close>

datatype json =
    JNull
  | JBool bool
  | JInt int
  | JFloat string
  | JString string
  | JArray "json list"
  | JObject "(string \<times> json) list"

text \<open>
  The text layer of \<^verbatim>\<open>encoding/json\<close>: \<open>emit\<close> writes a JSON value as bytes,
  \<open>scan\<close> reads the first JSON value of a stream, or fails with a syntax error.
\<close>

record encoding_json =
  emit :: "json \<Rightarrow> string"
  scan :: "string \<Rightarrow> error + json"

subsection \<open>Writing a struct: \<^verbatim>\<open>json.Marshal\<close>\<close>

text \<open>
  The members are written in the order of the fields, under the names of the tags; a field
  tagged \<^verbatim>\<open>omitempty\<close> is left out when it is \<^verbatim>\<open>0\<close>, \<^verbatim>\<open>""\<close> or \<^verbatim>\<open>false\<close>.
\<close>

definition Template_json :: "Template \<Rightarrow> json" where
  "Template_json t =
     JObject
       ((if TemplateID t = 0 then [] else [(''templateID'', JInt (sint (TemplateID t)))]) @
        [(''name'', JString (Name t)),
         (''subject'', JString (Subject t)),
         (''htmlBody'', JString (HtmlBody t)),
         (''textBody'', JString (TextBody t))] @
        (if Alias t = [] then [] else [(''alias'', JString (Alias t))]) @
        (if Active t then [(''active'', JBool True)] else []))"

text \<open>A struct of integers, strings and booleans always marshals: the error is never set.\<close>

definition json_Marshal :: "encoding_json \<Rightarrow> Template \<Rightarrow> error + string" where
  "json_Marshal J t = Inr (emit J (Template_json t))"

subsection \<open>Reading a struct: \<^verbatim>\<open>Decoder.Decode\<close>\<close>

text \<open>
  A member of the object goes to the field whose tag equals its key, or else to the field
  whose tag equals the key up to the case of ASCII letters; a member that matches no
  field is skipped. \<^verbatim>\<open>null\<close> leaves an integer, string or boolean field as it is and
  sets a slice to \<^verbatim>\<open>nil\<close>. A value of the wrong kind, or an integer that does not fit,
  is an \<^verbatim>\<open>UnmarshalTypeError\<close>; the first one is the error returned.

  \<^verbatim>\<open>encoding/json\<close> folds letters as Unicode does, so that it also takes U+017F for
  \<^verbatim>\<open>s\<close> and U+212A for \<^verbatim>\<open>k\<close>; these two are not folded here.
\<close>

definition toLower :: "char \<Rightarrow> char" where
  "toLower c =
     (case map_of (zip ''ABCDEFGHIJKLMNOPQRSTUVWXYZ'' ''abcdefghijklmnopqrstuvwxyz'') c of
        None \<Rightarrow> c | Some l \<Rightarrow> l)"

definition equalFold :: "string \<Rightarrow> string \<Rightarrow> bool" where
  "equalFold a b = (map toLower a = map toLower b)"

definition key_is :: "string \<Rightarrow> string \<Rightarrow> bool" where
  "key_is key tag = (key = tag \<or> equalFold key tag)"

fun json_kind :: "json \<Rightarrow> string" where
  "json_kind JNull = ''null''"
| "json_kind (JBool b) = ''bool''"
| "json_kind (JInt n) = ''number''"
| "json_kind (JFloat s) = ''number''"
| "json_kind (JString s) = ''string''"
| "json_kind (JArray xs) = ''array''"
| "json_kind (JObject kvs) = ''object''"

text \<open>
  The error for a JSON value of the kind \<open>value\<close> that does not fit a Go value of type
  \<open>ty\<close>; \<open>field\<close> is the struct and the member it was read for, or empty for the
  document itself.
\<close>

definition UnmarshalTypeError :: "string \<Rightarrow> string \<Rightarrow> string \<Rightarrow> error" where
  "UnmarshalTypeError value field ty =
     errorString
       (''json: cannot unmarshal '' @ value @
        (if field = [] then '' into Go value of type ''
         else '' into Go struct field '' @ field @ '' of type '') @ ty)"

definition store_int :: "string \<Rightarrow> string \<Rightarrow> json \<Rightarrow> 64 word \<Rightarrow> error + 64 word" where
  "store_int field ty v old =
     (case v of
        JNull \<Rightarrow> Inr old
      | JInt n \<Rightarrow>
          if - (2 ^ 63) \<le> n \<and> n < 2 ^ 63 then Inr (word_of_int n)
          else Inl (UnmarshalTypeError (''number '' @ Itoa n) field ty)
      | JFloat l \<Rightarrow> Inl (UnmarshalTypeError (''number '' @ l) field ty)
      | _ \<Rightarrow> Inl (UnmarshalTypeError (json_kind v) field ty))"

definition store_string :: "string \<Rightarrow> json \<Rightarrow> string \<Rightarrow> error + string" where
  "store_string field v old =
     (case v of
        JNull \<Rightarrow> Inr old
      | JString s \<Rightarrow> Inr s
      | _ \<Rightarrow> Inl (UnmarshalTypeError (json_kind v) field ''string''))"

definition store_bool :: "string \<Rightarrow> json \<Rightarrow> bool \<Rightarrow> error + bool" where
  "store_bool field v old =
     (case v of
        JNull \<Rightarrow> Inr old
      | JBool b \<Rightarrow> Inr b
      | _ \<Rightarrow> Inl (UnmarshalTypeError (json_kind v) field ''bool''))"

definition into :: "('a \<Rightarrow> 's) \<Rightarrow> error + 'a \<Rightarrow> error + 's" where
  "into upd r = (case r of Inl e \<Rightarrow> Inl e | Inr x \<Rightarrow> Inr (upd x))"

text \<open>The members of an object, one after the other, each into the struct so far.\<close>

fun members :: "(string \<times> json \<Rightarrow> 's \<Rightarrow> error + 's) \<Rightarrow> (string \<times> json) list \<Rightarrow> 's \<Rightarrow> error + 's"
  where
  "members f [] s = Inr s"
| "members f (kv # kvs) s =
     (case f kv s of Inl e \<Rightarrow> Inl e | Inr s' \<Rightarrow> members f kvs s')"

definition Template_member :: "string \<times> json \<Rightarrow> Template \<Rightarrow> error + Template" where
  "Template_member kv t =
     (let k = fst kv; v = snd kv in
      if key_is k ''templateID'' then
        into (\<lambda>x. t\<lparr>TemplateID := x\<rparr>)
          (store_int ''Template.templateID'' ''int64'' v (TemplateID t))
      else if key_is k ''name'' then
        into (\<lambda>x. t\<lparr>Name := x\<rparr>) (store_string ''Template.name'' v (Name t))
      else if key_is k ''subject'' then
        into (\<lambda>x. t\<lparr>Subject := x\<rparr>) (store_string ''Template.subject'' v (Subject t))
      else if key_is k ''htmlBody'' then
        into (\<lambda>x. t\<lparr>HtmlBody := x\<rparr>) (store_string ''Template.htmlBody'' v (HtmlBody t))
      else if key_is k ''textBody'' then
        into (\<lambda>x. t\<lparr>TextBody := x\<rparr>) (store_string ''Template.textBody'' v (TextBody t))
      else if key_is k ''alias'' then
        into (\<lambda>x. t\<lparr>Alias := x\<rparr>) (store_string ''Template.alias'' v (Alias t))
      else if key_is k ''active'' then
        into (\<lambda>x. t\<lparr>Active := x\<rparr>) (store_bool ''Template.active'' v (Active t))
      else Inr t)"

definition Unmarshal_Template :: "json \<Rightarrow> Template \<Rightarrow> error + Template" where
  "Unmarshal_Template j t =
     (case j of
        JNull \<Rightarrow> Inr t
      | JObject kvs \<Rightarrow> members Template_member kvs t
      | _ \<Rightarrow> Inl (UnmarshalTypeError (json_kind j) [] ''main.Template''))"

text \<open>
  The elements of an array into a slice: each element starts from the zero value, as it
  does when the slice has no elements before the array is read. An object that names the
  member \<^verbatim>\<open>templates\<close> twice is read as if each were the first.
\<close>

fun Unmarshal_Templates :: "json list \<Rightarrow> error + Template list" where
  "Unmarshal_Templates [] = Inr []"
| "Unmarshal_Templates (j # js) =
     (case Unmarshal_Template j zero_Template of
        Inl e \<Rightarrow> Inl e
      | Inr t \<Rightarrow> into (\<lambda>ts. t # ts) (Unmarshal_Templates js))"

definition store_Templates :: "json \<Rightarrow> Template list option \<Rightarrow> error + Template list option"
  where
  "store_Templates v old =
     (case v of
        JNull \<Rightarrow> Inr None
      | JArray js \<Rightarrow> into Some (Unmarshal_Templates js)
      | _ \<Rightarrow> Inl (UnmarshalTypeError (json_kind v) ''TemplatesResponse.templates'' ''[]main.Template''))"

definition TemplatesResponse_member ::
  "string \<times> json \<Rightarrow> TemplatesResponse \<Rightarrow> error + TemplatesResponse" where
  "TemplatesResponse_member kv r =
     (let k = fst kv; v = snd kv in
      if key_is k ''templates'' then
        into (\<lambda>x. r\<lparr>Templates := x\<rparr>) (store_Templates v (Templates r))
      else if key_is k ''totalCount'' then
        into (\<lambda>x. r\<lparr>TotalCount := x\<rparr>)
          (store_int ''TemplatesResponse.totalCount'' ''int'' v (TotalCount r))
      else Inr r)"

definition Unmarshal_TemplatesResponse ::
  "json \<Rightarrow> TemplatesResponse \<Rightarrow> error + TemplatesResponse" where
  "Unmarshal_TemplatesResponse j r =
     (case j of
        JNull \<Rightarrow> Inr r
      | JObject kvs \<Rightarrow> members TemplatesResponse_member kvs r
      | _ \<Rightarrow> Inl (UnmarshalTypeError (json_kind j) [] ''main.TemplatesResponse''))"

definition PostmarkResponse_member ::
  "string \<times> json \<Rightarrow> PostmarkResponse \<Rightarrow> error + PostmarkResponse" where
  "PostmarkResponse_member kv r =
     (let k = fst kv; v = snd kv in
      if key_is k ''templateID'' then
        into (\<lambda>x. r\<lparr>ResponseTemplateID := x\<rparr>)
          (store_int ''PostmarkResponse.templateID'' ''int64'' v (ResponseTemplateID r))
      else if key_is k ''errorCode'' then
        into (\<lambda>x. r\<lparr>ErrorCode := x\<rparr>)
          (store_int ''PostmarkResponse.errorCode'' ''int'' v (ErrorCode r))
      else if key_is k ''message'' then
        into (\<lambda>x. r\<lparr>Message := x\<rparr>) (store_string ''PostmarkResponse.message'' v (Message r))
      else Inr r)"

definition Unmarshal_PostmarkResponse ::
  "json \<Rightarrow> PostmarkResponse \<Rightarrow> error + PostmarkResponse" where
  "Unmarshal_PostmarkResponse j r =
     (case j of
        JNull \<Rightarrow> Inr r
      | JObject kvs \<Rightarrow> members PostmarkResponse_member kvs r
      | _ \<Rightarrow> Inl (UnmarshalTypeError (json_kind j) [] ''main.PostmarkResponse''))"

text \<open>
  \<^verbatim>\<open>json.NewDecoder(resp.Body).Decode(&v)\<close> with \<^verbatim>\<open>v\<close> freshly declared: scan the
  first value of the body, then fill the zero struct.
\<close>

definition Decode_Template :: "encoding_json \<Rightarrow> string \<Rightarrow> error + Template" where
  "Decode_Template J body =
     (case scan J body of Inl e \<Rightarrow> Inl e | Inr j \<Rightarrow> Unmarshal_Template j zero_Template)"

definition Decode_TemplatesResponse :: "encoding_json \<Rightarrow> string \<Rightarrow> error + TemplatesResponse"
  where
  "Decode_TemplatesResponse J body =
     (case scan J body of
        Inl e \<Rightarrow> Inl e
      | Inr j \<Rightarrow> Unmarshal_TemplatesResponse j zero_TemplatesResponse)"

definition Decode_PostmarkResponse :: "encoding_json \<Rightarrow> string \<Rightarrow> error + PostmarkResponse"
  where
  "Decode_PostmarkResponse J body =
     (case scan J body of
        Inl e \<Rightarrow> Inl e
      | Inr j \<Rightarrow> Unmarshal_PostmarkResponse j zero_PostmarkResponse)"

section \<open>HTTP\<close>

text \<open>
  A request as \<^verbatim>\<open>http.NewRequest\<close> builds it and a response as the client reads it:
  \<open>RespBody\<close> is what \<^verbatim>\<open>ioutil.ReadAll(resp.Body)\<close> returns.
\<close>

record Request =
  Method :: string
  URL :: string
  Header :: "string \<rightharpoonup> string list"
  Body :: "string option"

record Response =
  StatusCode :: go_int
  RespBody :: string

text \<open>
  \<^verbatim>\<open>http.NewRequest\<close> fails on a method that is not a token and on a URL that does not
  parse. The client's methods are constants and its URLs are a constant followed by
  integers printed with \<^verbatim>\<open>%d\<close>, so the error is never set.
\<close>

definition NewRequest :: "string \<Rightarrow> string \<Rightarrow> string option \<Rightarrow> error + Request" where
  "NewRequest method url body =
     Inr \<lparr>Method = method, URL = url, Header = Map.empty, Body = body\<rparr>"

text \<open>\<^verbatim>\<open>req.Header.Set(key, value)\<close>; the keys the client sets are in canonical form.\<close>

definition Header_Set :: "string \<Rightarrow> string \<Rightarrow> Request \<Rightarrow> Request" where
  "Header_Set key v req = req\<lparr>Header := (Header req)(key \<mapsto> [v])\<rparr>"

text \<open>
  \<^verbatim>\<open>client.Do\<close>: from the request and the world before to the answer (a transport error
  or a response) and the world after.
\<close>

type_synonym 'w transport = "Request \<Rightarrow> 'w \<Rightarrow> (error + Response) \<times> 'w"

text \<open>\<^verbatim>\<open>fmt.Errorf("unexpected status code: %d, response: %s", resp.StatusCode, bodyString)\<close>\<close>

definition Errorf_status :: "go_int \<Rightarrow> string \<Rightarrow> error" where
  "Errorf_status code bodyString =
     errorString (''unexpected status code: '' @ Sprintf_d code @ '', response: '' @ bodyString)"

section \<open>The six operations\<close>

definition CreateTemplate ::
  "encoding_json \<Rightarrow> 'w transport \<Rightarrow> string \<Rightarrow> Template \<Rightarrow> 'w \<Rightarrow> (int64 \<times> error option) \<times> 'w"
  where
  "CreateTemplate J Do apiToken template w =
     (let url = ''https://api.postmarkapp.com/templates'' in
      case json_Marshal J template of
        Inl err \<Rightarrow> ((0, Some (Errorf_w ''failed to marshal template: '' err)), w)
      | Inr jsonData \<Rightarrow>
     (case NewRequest ''POST'' url (Some jsonData) of
        Inl err \<Rightarrow> ((0, Some (Errorf_w ''failed to create request: '' err)), w)
      | Inr req0 \<Rightarrow>
     (let req = Header_Set ''X-Postmark-Server-Token'' apiToken
                  (Header_Set ''Content-Type'' ''application/json''
                    (Header_Set ''Accept'' ''application/json'' req0)) in
      case Do req w of
        (Inl err, w') \<Rightarrow> ((0, Some (Errorf_w ''failed to send request: '' err)), w')
      | (Inr resp, w') \<Rightarrow>
          if StatusCode resp \<noteq> 200 then
            ((0, Some (Errorf_status (StatusCode resp) (RespBody resp))), w')
          else
            (case Decode_PostmarkResponse J (RespBody resp) of
               Inl err \<Rightarrow> ((0, Some (Errorf_w ''failed to decode response: '' err)), w')
             | Inr postmarkResponse \<Rightarrow>
                 if ErrorCode postmarkResponse \<noteq> 0 then
                   ((0, Some (Errorf_s ''failed to create template: ''
                                (Message postmarkResponse))), w')
                 else ((ResponseTemplateID postmarkResponse, None), w')))))"

definition GetTemplate ::
  "encoding_json \<Rightarrow> 'w transport \<Rightarrow> string \<Rightarrow> int64 \<Rightarrow> 'w \<Rightarrow> (Template option \<times> error option) \<times> 'w"
  where
  "GetTemplate J Do apiToken templateID w =
     (let url = ''https://api.postmarkapp.com/templates/'' @ Sprintf_d templateID in
      case NewRequest ''GET'' url None of
        Inl err \<Rightarrow> ((None, Some (Errorf_w ''failed to create request: '' err)), w)
      | Inr req0 \<Rightarrow>
     (let req = Header_Set ''X-Postmark-Server-Token'' apiToken
                  (Header_Set ''Accept'' ''application/json'' req0) in
      case Do req w of
        (Inl err, w') \<Rightarrow> ((None, Some (Errorf_w ''failed to send request: '' err)), w')
      | (Inr resp, w') \<Rightarrow>
          if StatusCode resp \<noteq> 200 then
            ((None, Some (Errorf_status (StatusCode resp) (RespBody resp))), w')
          else
            (case Decode_Template J (RespBody resp) of
               Inl err \<Rightarrow> ((None, Some (Errorf_w ''failed to decode response: '' err)), w')
             | Inr template \<Rightarrow> ((Some template, None), w'))))"

definition UpdateTemplate ::
  "encoding_json \<Rightarrow> 'w transport \<Rightarrow> string \<Rightarrow> Template \<Rightarrow> 'w \<Rightarrow> error option \<times> 'w"
  where
  "UpdateTemplate J Do apiToken template w =
     (let url = ''https://api.postmarkapp.com/templates/'' @ Sprintf_d (TemplateID template) in
      case json_Marshal J template of
        Inl err \<Rightarrow> (Some (Errorf_w ''failed to marshal template: '' err), w)
      | Inr jsonData \<Rightarrow>
     (case NewRequest ''PUT'' url (Some jsonData) of
        Inl err \<Rightarrow> (Some (Errorf_w ''failed to create request: '' err), w)
      | Inr req0 \<Rightarrow>
     (let req = Header_Set ''X-Postmark-Server-Token'' apiToken
                  (Header_Set ''Content-Type'' ''application/json''
                    (Header_Set ''Accept'' ''application/json'' req0)) in
      case Do req w of
        (Inl err, w') \<Rightarrow> (Some (Errorf_w ''failed to send request: '' err), w')
      | (Inr resp, w') \<Rightarrow>
          if StatusCode resp \<noteq> 200 then
            (Some (Errorf_status (StatusCode resp) (RespBody resp)), w')
          else
            (case Decode_PostmarkResponse J (RespBody resp) of
               Inl err \<Rightarrow> (Some (Errorf_w ''failed to decode response: '' err), w')
             | Inr postmarkResponse \<Rightarrow>
                 if ErrorCode postmarkResponse \<noteq> 0 then
                   (Some (Errorf_s ''failed to update template: ''
                            (Message postmarkResponse)), w')
                 else (None, w')))))"

definition DeleteTemplate ::
  "'w transport \<Rightarrow> string \<Rightarrow> int64 \<Rightarrow> 'w \<Rightarrow> error option \<times> 'w"
  where
  "DeleteTemplate Do apiToken templateID w =
     (let url = ''https://api.postmarkapp.com/templates/'' @ Sprintf_d templateID in
      case NewRequest ''DELETE'' url None of
        Inl err \<Rightarrow> (Some (Errorf_w ''failed to create request: '' err), w)
      | Inr req0 \<Rightarrow>
     (let req = Header_Set ''X-Postmark-Server-Token'' apiToken
                  (Header_Set ''Accept'' ''application/json'' req0) in
      case Do req w of
        (Inl err, w') \<Rightarrow> (Some (Errorf_w ''failed to send request: '' err), w')
      | (Inr resp, w') \<Rightarrow>
          if StatusCode resp \<noteq> 200 then
            (Some (Errorf_status (StatusCode resp) (RespBody resp)), w')
          else (None, w')))"

definition GetTemplates ::
  "encoding_json \<Rightarrow> 'w transport \<Rightarrow> string \<Rightarrow> go_int \<Rightarrow> go_int \<Rightarrow> 'w \<Rightarrow>
     (Template list option \<times> error option) \<times> 'w"
  where
  "GetTemplates J Do apiToken offset count' w =
     (let url = ''https://api.postmarkapp.com/templates?offset='' @ Sprintf_d offset @
                ''&count='' @ Sprintf_d count' in
      case NewRequest ''GET'' url None of
        Inl err \<Rightarrow> ((None, Some (Errorf_w ''failed to create request: '' err)), w)
      | Inr req0 \<Rightarrow>
     (let req = Header_Set ''X-Postmark-Server-Token'' apiToken
                  (Header_Set ''Accept'' ''application/json'' req0) in
      case Do req w of
        (Inl err, w') \<Rightarrow> ((None, Some (Errorf_w ''failed to send request: '' err)), w')
      | (Inr resp, w') \<Rightarrow>
          if StatusCode resp \<noteq> 200 then
            ((None, Some (Errorf_status (StatusCode resp) (RespBody resp))), w')
          else
            (case Decode_TemplatesResponse J (RespBody resp) of
               Inl err \<Rightarrow> ((None, Some (Errorf_w ''failed to decode response: '' err)), w')
             | Inr templatesResponse \<Rightarrow> ((Templates templatesResponse, None), w'))))"

definition ValidateTemplate ::
  "encoding_json \<Rightarrow> 'w transport \<Rightarrow> string \<Rightarrow> Template \<Rightarrow> 'w \<Rightarrow> error option \<times> 'w"
  where
  "ValidateTemplate J Do apiToken template w =
     (let url = ''https://api.postmarkapp.com/templates/validate'' in
      case json_Marshal J template of
        Inl err \<Rightarrow> (Some (Errorf_w ''failed to marshal template: '' err), w)
      | Inr jsonData \<Rightarrow>
     (case NewRequest ''POST'' url (Some jsonData) of
        Inl err \<Rightarrow> (Some (Errorf_w ''failed to create request: '' err), w)
      | Inr req0 \<Rightarrow>
     (let req = Header_Set ''X-Postmark-Server-Token'' apiToken
                  (Header_Set ''Content-Type'' ''application/json''
                    (Header_Set ''Accept'' ''application/json'' req0)) in
      case Do req w of
        (Inl err, w') \<Rightarrow> (Some (Errorf_w ''failed to send request: '' err), w')
      | (Inr resp, w') \<Rightarrow>
          if StatusCode resp \<noteq> 200 then
            (Some (Errorf_status (StatusCode resp) (RespBody resp)), w')
          else (None, w'))))"


section \<open>Stating properties of the operations\<close>

text \<open>
  The six operations as one type of call, and the error each returns: a property of
  every operation is a property of \<open>failure\<close> for every call.
\<close>

datatype call =
    Create Template
  | Get int64
  | Update Template
  | Delete int64
  | List go_int go_int
  | Validate Template

definition failure ::
  "encoding_json \<Rightarrow> 'w transport \<Rightarrow> string \<Rightarrow> call \<Rightarrow> 'w \<Rightarrow> error option" where
  "failure J Do apiToken c w =
     (case c of
        Create t \<Rightarrow> snd (fst (CreateTemplate J Do apiToken t w))
      | Get i \<Rightarrow> snd (fst (GetTemplate J Do apiToken i w))
      | Update t \<Rightarrow> fst (UpdateTemplate J Do apiToken t w)
      | Delete i \<Rightarrow> fst (DeleteTemplate Do apiToken i w)
      | List off cnt \<Rightarrow> snd (fst (GetTemplates J Do apiToken off cnt w))
      | Validate t \<Rightarrow> fst (ValidateTemplate J Do apiToken t w))"

definition after ::
  "encoding_json \<Rightarrow> 'w transport \<Rightarrow> string \<Rightarrow> call \<Rightarrow> 'w \<Rightarrow> 'w" where
  "after J Do apiToken c w =
     (case c of
        Create t \<Rightarrow> snd (CreateTemplate J Do apiToken t w)
      | Get i \<Rightarrow> snd (GetTemplate J Do apiToken i w)
      | Update t \<Rightarrow> snd (UpdateTemplate J Do apiToken t w)
      | Delete i \<Rightarrow> snd (DeleteTemplate Do apiToken i w)
      | List off cnt \<Rightarrow> snd (GetTemplates J Do apiToken off cnt w)
      | Validate t \<Rightarrow> snd (ValidateTemplate J Do apiToken t w))"

text \<open>In the world \<open>w\<close> the transport answers with the response \<open>resp\<close>, whatever is asked.\<close>

definition replies :: "'w transport \<Rightarrow> 'w \<Rightarrow> Response \<Rightarrow> 'w \<Rightarrow> bool" where
  "replies Do w resp w' = (\<forall>req. Do req w = (Inr resp, w'))"

text \<open>A transport that always answers with the same response and leaves the world alone.\<close>

definition canned :: "Response \<Rightarrow> 'w transport" where
  "canned resp req w = (Inr resp, w)"

text \<open>A transport that also keeps the requests it was given, in order.\<close>

definition recording :: "'w transport \<Rightarrow> ('w \<times> Request list) transport" where
  "recording Do req wl = (case Do req (fst wl) of (r, w') \<Rightarrow> (r, (w', snd wl @ [req])))"

definition issued ::
  "encoding_json \<Rightarrow> 'w transport \<Rightarrow> string \<Rightarrow> call \<Rightarrow> 'w \<Rightarrow> Request list" where
  "issued J Do apiToken c w = snd (after J (recording Do) apiToken c (w, []))"

section \<open>A reference text layer for JSON\<close>

text \<open>
  A compact writer and a reader for JSON text, used where a concrete wire format is
  needed. The writer separates nothing with white space and writes a string as
  \<^verbatim>\<open>json.Marshal\<close> does: the quote, the backslash and the control characters escaped,
  \<^verbatim>\<open><\<close>, \<^verbatim>\<open>>\<close> and \<^verbatim>\<open>&\<close> as \<^verbatim>\<open>u003c\<close>, \<^verbatim>\<open>u003e\<close> and \<^verbatim>\<open>u0026\<close> escapes, the
  separators U+2028 and U+2029 escaped, and every byte that is not part of well-formed
  UTF-8 replaced by the escape of U+FFFD. The reader skips white space between tokens
  and stops after the first value, as \<^verbatim>\<open>Decoder.Decode\<close> does; in a string it joins the
  escapes of a surrogate pair and replaces a lone surrogate and every byte that is not
  part of well-formed UTF-8 by U+FFFD.
\<close>

definition is_space :: "char \<Rightarrow> bool" where
  "is_space c = (c = CHR '' '' \<or> c = CHR 0x09 \<or> c = CHR 0x0A \<or> c = CHR 0x0D)"

definition skip_ws :: "string \<Rightarrow> string" where
  "skip_ws s = dropWhile is_space s"

definition is_digit :: "char \<Rightarrow> bool" where
  "is_digit c = (c \<in> set ''0123456789'')"

definition digit_val :: "char \<Rightarrow> nat" where
  "digit_val c = of_char c - 48"

definition hex_val :: "char \<Rightarrow> nat option" where
  "hex_val c =
     (let n = (of_char c :: nat) in
      if 48 \<le> n \<and> n \<le> 57 then Some (n - 48)
      else if 97 \<le> n \<and> n \<le> 102 then Some (n - 87)
      else if 65 \<le> n \<and> n \<le> 70 then Some (n - 55)
      else None)"

definition hex_digit :: "nat \<Rightarrow> char" where
  "hex_digit d = ''0123456789abcdef'' ! d"

text \<open>U+FFFD, the replacement character, in UTF-8.\<close>

definition replacement :: string where
  "replacement = [CHR 0xEF, CHR 0xBF, CHR 0xBD]"

text \<open>
  \<^verbatim>\<open>utf8.EncodeRune\<close>: the UTF-8 bytes of a code point; a surrogate and a code point
  beyond U+10FFFF are written as U+FFFD.
\<close>

definition utf8 :: "nat \<Rightarrow> string" where
  "utf8 cp =
     (if cp < 0x80 then [char_of cp]
      else if cp < 0x800 then [char_of (0xC0 + cp div 0x40), char_of (0x80 + cp mod 0x40)]
      else if (0xD800 \<le> cp \<and> cp < 0xE000) \<or> 0x10FFFF < cp then replacement
      else if cp < 0x10000 then
        [char_of (0xE0 + cp div 0x1000), char_of (0x80 + cp div 0x40 mod 0x40),
         char_of (0x80 + cp mod 0x40)]
      else
        [char_of (0xF0 + cp div 0x40000), char_of (0x80 + cp div 0x1000 mod 0x40),
         char_of (0x80 + cp div 0x40 mod 0x40), char_of (0x80 + cp mod 0x40)])"

definition between :: "nat \<Rightarrow> nat \<Rightarrow> char \<Rightarrow> bool" where
  "between lo hi c = (lo \<le> of_char c \<and> of_char c \<le> hi)"

text \<open>
  \<^verbatim>\<open>utf8.DecodeRune\<close>, as far as the text layer needs it: the length of the well-formed
  UTF-8 sequence a text starts with, or 0 when it starts with none.
\<close>

definition utf8_len :: "string \<Rightarrow> nat" where
  "utf8_len s =
     (case s of
        [] \<Rightarrow> 0
      | c0 # r \<Rightarrow>
          if between 0x00 0x7F c0 then 1
          else if between 0xC2 0xDF c0 then
            (case r of
               c1 # _ \<Rightarrow> if between 0x80 0xBF c1 then 2 else 0
             | _ \<Rightarrow> 0)
          else if between 0xE0 0xEF c0 then
            (case r of
               c1 # c2 # _ \<Rightarrow>
                 if between (if c0 = CHR 0xE0 then 0xA0 else 0x80)
                      (if c0 = CHR 0xED then 0x9F else 0xBF) c1 \<and>
                    between 0x80 0xBF c2
                 then 3 else 0
             | _ \<Rightarrow> 0)
          else if between 0xF0 0xF4 c0 then
            (case r of
               c1 # c2 # c3 # _ \<Rightarrow>
                 if between (if c0 = CHR 0xF0 then 0x90 else 0x80)
                      (if c0 = CHR 0xF4 then 0x8F else 0xBF) c1 \<and>
                    between 0x80 0xBF c2 \<and> between 0x80 0xBF c3
                 then 4 else 0
             | _ \<Rightarrow> 0)
          else 0)"

text \<open>A byte below 0x80 inside a string, as \<^verbatim>\<open>json.Marshal\<close> writes it.\<close>

definition escape_ascii :: "char \<Rightarrow> string" where
  "escape_ascii c =
     (if c = CHR 0x22 then [CHR 0x5C, CHR 0x22]
      else if c = CHR 0x5C then [CHR 0x5C, CHR 0x5C]
      else if c = CHR 0x08 then [CHR 0x5C, CHR ''b'']
      else if c = CHR 0x0C then [CHR 0x5C, CHR ''f'']
      else if c = CHR 0x0A then [CHR 0x5C, CHR ''n'']
      else if c = CHR 0x0D then [CHR 0x5C, CHR ''r'']
      else if c = CHR 0x09 then [CHR 0x5C, CHR ''t'']
      else if (of_char c :: nat) < 0x20 \<or> c = CHR ''<'' \<or> c = CHR ''>'' \<or> c = CHR ''&'' then
        [CHR 0x5C, CHR ''u'', CHR ''0'', CHR ''0'',
         hex_digit (of_char c div 16), hex_digit (of_char c mod 16)]
      else [c])"

function escape_string :: "string \<Rightarrow> string" where
  "escape_string [] = []"
| "escape_string (c # cs) =
     (if (of_char c :: nat) < 0x80 then escape_ascii c @ escape_string cs
      else if utf8_len (c # cs) = 0 then
        [CHR 0x5C, CHR ''u'', CHR ''f'', CHR ''f'', CHR ''f'', CHR ''d''] @ escape_string cs
      else if take 3 (c # cs) = [CHR 0xE2, CHR 0x80, CHR 0xA8] then
        [CHR 0x5C, CHR ''u'', CHR ''2'', CHR ''0'', CHR ''2'', CHR ''8''] @
        escape_string (drop 2 cs)
      else if take 3 (c # cs) = [CHR 0xE2, CHR 0x80, CHR 0xA9] then
        [CHR 0x5C, CHR ''u'', CHR ''2'', CHR ''0'', CHR ''2'', CHR ''9''] @
        escape_string (drop 2 cs)
      else take (utf8_len (c # cs)) (c # cs) @ escape_string (drop (utf8_len (c # cs) - 1) cs))"
  by pat_completeness auto
termination
  by (relation "measure length") auto

definition quote :: "string \<Rightarrow> string" where
  "quote s = CHR 0x22 # escape_string s @ [CHR 0x22]"

definition unescape :: "char \<Rightarrow> char option" where
  "unescape e =
     map_of [(CHR 0x22, CHR 0x22), (CHR 0x5C, CHR 0x5C), (CHR ''/'', CHR ''/''),
             (CHR ''b'', CHR 0x08), (CHR ''f'', CHR 0x0C), (CHR ''n'', CHR 0x0A),
             (CHR ''r'', CHR 0x0D), (CHR ''t'', CHR 0x09)] e"

text \<open>The code unit of a \<^verbatim>\<open>u\<close> escape with four hexadecimal digits that a text starts with.\<close>

definition getu4 :: "string \<Rightarrow> nat option" where
  "getu4 s =
     (case s of
        b # u # x3 # x2 # x1 # x0 # _ \<Rightarrow>
          if b = CHR 0x5C \<and> u = CHR ''u'' then
            (case (hex_val x3, hex_val x2, hex_val x1, hex_val x0) of
               (Some h3, Some h2, Some h1, Some h0) \<Rightarrow>
                 Some (((h3 * 16 + h2) * 16 + h1) * 16 + h0)
             | _ \<Rightarrow> None)
          else None
      | _ \<Rightarrow> None)"

definition prepend :: "string \<Rightarrow> (string \<times> string) option \<Rightarrow> (string \<times> string) option" where
  "prepend p r = map_option (apfst ((@) p)) r"

text \<open>The characters of a string after its opening quote, and what follows the closing one.\<close>

function scan_chars :: "string \<Rightarrow> (string \<times> string) option" where
  "scan_chars [] = None"
| "scan_chars (c # cs) =
     (if c = CHR 0x22 then Some ([], cs)
      else if c = CHR 0x5C then
        (case cs of
           [] \<Rightarrow> None
         | e # r \<Rightarrow>
             if e = CHR ''u'' then
               (case getu4 (c # cs) of
                  None \<Rightarrow> None
                | Some rr \<Rightarrow>
                    if 0xD800 \<le> rr \<and> rr < 0xE000 then
                      (case getu4 (drop 5 cs) of
                         None \<Rightarrow> prepend replacement (scan_chars (drop 5 cs))
                       | Some rr1 \<Rightarrow>
                           if rr < 0xDC00 \<and> 0xDC00 \<le> rr1 \<and> rr1 < 0xE000 then
                             prepend (utf8 (0x10000 + (rr - 0xD800) * 0x400 + (rr1 - 0xDC00)))
                               (scan_chars (drop 11 cs))
                           else prepend replacement (scan_chars (drop 5 cs)))
                    else prepend (utf8 rr) (scan_chars (drop 5 cs)))
             else
               (case unescape e of
                  None \<Rightarrow> None
                | Some x \<Rightarrow> prepend [x] (scan_chars r)))
      else if (of_char c :: nat) < 0x20 then None
      else if (of_char c :: nat) < 0x80 then prepend [c] (scan_chars cs)
      else if utf8_len (c # cs) = 0 then prepend replacement (scan_chars cs)
      else prepend (take (utf8_len (c # cs)) (c # cs))
             (scan_chars (drop (utf8_len (c # cs) - 1) cs)))"
  by pat_completeness auto
termination
  by (relation "measure length") auto

definition number_value :: "string \<Rightarrow> nat" where
  "number_value ds = foldl (\<lambda>a c. 10 * a + digit_val c) 0 ds"

definition scan_digits :: "string \<Rightarrow> (string \<times> string) option" where
  "scan_digits s =
     (let ds = takeWhile is_digit s in
      if ds = [] then None else Some (ds, dropWhile is_digit s))"

text \<open>
  A number: an optional minus, \<^verbatim>\<open>0\<close> or digits, then an optional fraction and an
  optional exponent. Without fraction and exponent it is an integer.
\<close>

definition scan_number :: "string \<Rightarrow> (json \<times> string) option" where
  "scan_number s =
     (let neg = (s \<noteq> [] \<and> hd s = CHR ''-'');
          s1 = (if neg then tl s else s) in
      case (if s1 \<noteq> [] \<and> hd s1 = CHR ''0'' then Some (''0'', tl s1) else scan_digits s1) of
        None \<Rightarrow> None
      | Some (ds, s2) \<Rightarrow>
     (case (if s2 \<noteq> [] \<and> hd s2 = CHR ''.''
            then map_option (apfst ((#) CHR ''.'')) (scan_digits (tl s2))
            else Some ([], s2)) of
        None \<Rightarrow> None
      | Some (frac, s3) \<Rightarrow>
     (case (if s3 \<noteq> [] \<and> (hd s3 = CHR ''e'' \<or> hd s3 = CHR ''E'') then
              (let s4 = tl s3;
                   sg = (if s4 \<noteq> [] \<and> (hd s4 = CHR ''+'' \<or> hd s4 = CHR ''-'')
                         then [hd s4] else [])
               in map_option (apfst (\<lambda>e. hd s3 # sg @ e)) (scan_digits (drop (length sg) s4)))
            else Some ([], s3)) of
        None \<Rightarrow> None
      | Some (ex, s5) \<Rightarrow>
          if frac = [] \<and> ex = [] then
            Some (JInt (if neg then - int (number_value ds) else int (number_value ds)), s5)
          else Some (JFloat ((if neg then ''-'' else []) @ ds @ frac @ ex), s5))))"

text \<open>
  Recursive descent; the first argument bounds the depth of the calls. \<open>json_scan\<close>
  starts with more than the length of the text. One error stands for every text that is
  not JSON; \<^verbatim>\<open>encoding/json\<close> names the character it did not expect, and answers
  \<^verbatim>\<open>EOF\<close> to an empty text.
\<close>

fun scan_value :: "nat \<Rightarrow> string \<Rightarrow> (json \<times> string) option"
  and scan_elements :: "nat \<Rightarrow> string \<Rightarrow> (json list \<times> string) option"
  and scan_members :: "nat \<Rightarrow> string \<Rightarrow> ((string \<times> json) list \<times> string) option"
  where
  "scan_value 0 s = None"
| "scan_value (Suc n) s =
     (case skip_ws s of
        [] \<Rightarrow> None
      | c # cs \<Rightarrow>
          if c = CHR ''{'' then
            (case skip_ws cs of
               [] \<Rightarrow> None
             | c' # cs' \<Rightarrow>
                 if c' = CHR ''}'' then Some (JObject [], cs')
                 else map_option (apfst JObject) (scan_members n (c' # cs')))
          else if c = CHR ''['' then
            (case skip_ws cs of
               [] \<Rightarrow> None
             | c' # cs' \<Rightarrow>
                 if c' = CHR '']'' then Some (JArray [], cs')
                 else map_option (apfst JArray) (scan_elements n (c' # cs')))
          else if c = CHR 0x22 then map_option (apfst JString) (scan_chars cs)
          else if take 4 (c # cs) = ''null'' then Some (JNull, drop 4 (c # cs))
          else if take 4 (c # cs) = ''true'' then Some (JBool True, drop 4 (c # cs))
          else if take 5 (c # cs) = ''false'' then Some (JBool False, drop 5 (c # cs))
          else scan_number (c # cs))"
| "scan_elements 0 s = None"
| "scan_elements (Suc n) s =
     (case scan_value n s of
        None \<Rightarrow> None
      | Some (v, r) \<Rightarrow>
          (case skip_ws r of
             [] \<Rightarrow> None
           | c # cs \<Rightarrow>
               if c = CHR '']'' then Some ([v], cs)
               else if c = CHR '','' then map_option (apfst ((#) v)) (scan_elements n cs)
               else None))"
| "scan_members 0 s = None"
| "scan_members (Suc n) s =
     (case skip_ws s of
        [] \<Rightarrow> None
      | q # s1 \<Rightarrow>
          if q \<noteq> CHR 0x22 then None
          else
            (case scan_chars s1 of
               None \<Rightarrow> None
             | Some (k, s2) \<Rightarrow>
                 (case skip_ws s2 of
                    [] \<Rightarrow> None
                  | c # s3 \<Rightarrow>
                      if c \<noteq> CHR '':'' then None
                      else
                        (case scan_value n s3 of
                           None \<Rightarrow> None
                         | Some (v, r) \<Rightarrow>
                             (case skip_ws r of
                                [] \<Rightarrow> None
                              | c' # cs \<Rightarrow>
                                  if c' = CHR ''}'' then Some ([(k, v)], cs)
                                  else if c' = CHR '','' then
                                    map_option (apfst ((#) (k, v))) (scan_members n cs)
                                  else None)))))"

definition json_scan :: "string \<Rightarrow> error + json" where
  "json_scan s =
     (case scan_value (Suc (length s)) s of
        None \<Rightarrow> Inl (errorString ''invalid character in JSON input'')
      | Some (j, r) \<Rightarrow> Inr j)"

fun separated :: "string \<Rightarrow> string list \<Rightarrow> string" where
  "separated sep [] = []"
| "separated sep [x] = x"
| "separated sep (x # y # ys) = x @ sep @ separated sep (y # ys)"

fun json_emit :: "json \<Rightarrow> string" where
  "json_emit JNull = ''null''"
| "json_emit (JBool b) = (if b then ''true'' else ''false'')"
| "json_emit (JInt n) = Itoa n"
| "json_emit (JFloat s) = s"
| "json_emit (JString s) = quote s"
| "json_emit (JArray xs) = ''['' @ separated '','' (map json_emit xs) @ '']''"
| "json_emit (JObject kvs) =
     ''{'' @ separated '','' (map (\<lambda>kv. quote (fst kv) @ '':'' @ json_emit (snd kv)) kvs) @ ''}''"

definition reference_json :: encoding_json where
  "reference_json = \<lparr>emit = json_emit, scan = json_scan\<rparr>"







section \<open>A double of the remote service\<close>

text \<open>
  Modelled from the spec: the test double that simulates the remote API, which the
  repository does not contain. It keeps the templates it was given and the next
  identifier to assign. It shares nothing with the client but the text layer: it reads
  the members of a posted Template by the names of the spec, writes a stored Template
  with all seven members, and reads the identifier of a template from the decimal digits
  at the end of the address. It answers a request without the credential header with
  401, and reports its own failures with status 200 and a nonzero embedded error code.
\<close>

record api =
  server_token :: string
  next_id :: int64
  stored :: "Template list"

text \<open>
  Modelled from the spec: the validity of a Template, which the client does not check
  (name and subject required, at least one of the two bodies expected).
\<close>

definition valid_Template :: "Template \<Rightarrow> bool" where
  "valid_Template t = (Name t \<noteq> [] \<and> Subject t \<noteq> [] \<and> (HtmlBody t \<noteq> [] \<or> TextBody t \<noteq> []))"

text \<open>
  Modelled from the spec: an answer of the double, a status and a JSON object that ends
  with the members \<^verbatim>\<open>errorCode\<close> and \<^verbatim>\<open>message\<close>.
\<close>

definition api_reply :: "encoding_json \<Rightarrow> go_int \<Rightarrow> (string \<times> json) list \<Rightarrow> int \<Rightarrow> string \<Rightarrow> Response"
  where
  "api_reply J status kvs code msg =
     \<lparr>StatusCode = status,
      RespBody = emit J (JObject (kvs @ [(''errorCode'', JInt code), (''message'', JString msg)]))\<rparr>"

text \<open>Modelled from the spec: the Template that a posted JSON document describes.\<close>

definition text_member :: "(string \<times> json) list \<Rightarrow> string \<Rightarrow> string" where
  "text_member kvs k = (case map_of kvs k of Some (JString v) \<Rightarrow> v | _ \<Rightarrow> [])"

definition posted_template :: "json \<Rightarrow> Template option" where
  "posted_template j =
     (case j of
        JObject kvs \<Rightarrow>
          Some \<lparr>TemplateID = 0,
                Name = text_member kvs ''name'',
                Subject = text_member kvs ''subject'',
                HtmlBody = text_member kvs ''htmlBody'',
                TextBody = text_member kvs ''textBody'',
                Alias = text_member kvs ''alias'',
                Active = (map_of kvs ''active'' = Some (JBool True))\<rparr>
      | _ \<Rightarrow> None)"

text \<open>Modelled from the spec: the JSON document of a stored Template, all members written.\<close>

definition stored_json :: "Template \<Rightarrow> json" where
  "stored_json t =
     JObject
       [(''templateID'', JInt (sint (TemplateID t))),
        (''name'', JString (Name t)),
        (''subject'', JString (Subject t)),
        (''htmlBody'', JString (HtmlBody t)),
        (''textBody'', JString (TextBody t)),
        (''alias'', JString (Alias t)),
        (''active'', JBool (Active t))]"

text \<open>Modelled from the spec: the identifier at the end of the address of a template.\<close>

definition path_id :: "string \<Rightarrow> int64 option" where
  "path_id url =
     (if take 38 url = ''https://api.postmarkapp.com/templates/'' then
        (case scan_number (drop 38 url) of
           Some (JInt n, []) \<Rightarrow>
             if - (2 ^ 63) \<le> n \<and> n < 2 ^ 63 then Some (word_of_int n) else None
         | _ \<Rightarrow> None)
      else None)"

text \<open>
  Modelled from the spec: the double's answers. Create stores a valid Template under the
  next identifier and answers with that identifier and error code 0, and answers an
  invalid one with status 200 and error code 1001; Get answers with the stored Template
  of that identifier; Delete of an identifier that is not stored answers with status
  200 and a nonzero error code.
\<close>

definition simulated_api :: "encoding_json \<Rightarrow> api transport" where
  "simulated_api J req s =
     (if Header req ''X-Postmark-Server-Token'' \<noteq> Some [server_token s] then
        (Inr (api_reply J 401 [] 10 ''Bad or missing Server API token.''), s)
      else if Method req = ''POST'' \<and> URL req = ''https://api.postmarkapp.com/templates'' then
        (case Body req of
           None \<Rightarrow> (Inr (api_reply J 200 [] 402 ''Invalid JSON''), s)
         | Some b \<Rightarrow>
             (case scan J b of
                Inl e \<Rightarrow> (Inr (api_reply J 200 [] 402 ''Invalid JSON''), s)
              | Inr j \<Rightarrow>
                  (case posted_template j of
                     None \<Rightarrow> (Inr (api_reply J 200 [] 402 ''Invalid JSON''), s)
                   | Some t \<Rightarrow>
                       if \<not> valid_Template t then
                         (Inr (api_reply J 200 [] 1001 ''Invalid template''), s)
                       else
                         (Inr (api_reply J 200 [(''templateID'', JInt (sint (next_id s)))]
                                 0 ''OK''),
                          s\<lparr>next_id := next_id s + 1,
                            stored := t\<lparr>TemplateID := next_id s\<rparr> # stored s\<rparr>))))
      else if Method req = ''GET'' then
        (case path_id (URL req) of
           None \<Rightarrow> (Inr \<lparr>StatusCode = 404, RespBody = ''Not Found''\<rparr>, s)
         | Some i \<Rightarrow>
             (case find (\<lambda>t. TemplateID t = i) (stored s) of
                None \<Rightarrow> (Inr (api_reply J 404 [] 1101 ''Template not found''), s)
              | Some t \<Rightarrow> (Inr \<lparr>StatusCode = 200, RespBody = emit J (stored_json t)\<rparr>, s)))
      else if Method req = ''DELETE'' then
        (case path_id (URL req) of
           None \<Rightarrow> (Inr \<lparr>StatusCode = 404, RespBody = ''Not Found''\<rparr>, s)
         | Some i \<Rightarrow>
             if list_ex (\<lambda>t. TemplateID t = i) (stored s) then
               (Inr (api_reply J 200 [] 0 ''Template removed''),
                s\<lparr>stored := filter (\<lambda>t. TemplateID t \<noteq> i) (stored s)\<rparr>)
             else (Inr (api_reply J 200 [] 1101 ''Template not found''), s))
      else (Inr \<lparr>StatusCode = 404, RespBody = ''Not Found''\<rparr>, s))"


text \<open>The calls that send a body.\<close>

fun sends_body :: "call \<Rightarrow> bool" where
  "sends_body (Create t) = True"
| "sends_body (Update t) = True"
| "sends_body (Validate t) = True"
| "sends_body c = False"

text \<open>The members of a JSON object, in order.\<close>

fun members_of :: "json \<Rightarrow> (string \<times> json) list" where
  "members_of (JObject kvs) = kvs"
| "members_of j = []"

section \<open>Evaluation\<close>

text \<open>The table of \<open>toLower\<close> on the letters, computed once.\<close>

lemma toLower_letter:
  "toLower CHR ''A'' = CHR ''a''" "toLower CHR ''B'' = CHR ''b''" "toLower CHR ''C'' = CHR ''c''" "toLower CHR ''D'' = CHR ''d''"
  "toLower CHR ''E'' = CHR ''e''" "toLower CHR ''F'' = CHR ''f''" "toLower CHR ''G'' = CHR ''g''" "toLower CHR ''H'' = CHR ''h''"
  "toLower CHR ''I'' = CHR ''i''" "toLower CHR ''J'' = CHR ''j''" "toLower CHR ''K'' = CHR ''k''" "toLower CHR ''L'' = CHR ''l''"
  "toLower CHR ''M'' = CHR ''m''" "toLower CHR ''N'' = CHR ''n''" "toLower CHR ''O'' = CHR ''o''" "toLower CHR ''P'' = CHR ''p''"
  "toLower CHR ''Q'' = CHR ''q''" "toLower CHR ''R'' = CHR ''r''" "toLower CHR ''S'' = CHR ''s''" "toLower CHR ''T'' = CHR ''t''"
  "toLower CHR ''U'' = CHR ''u''" "toLower CHR ''V'' = CHR ''v''" "toLower CHR ''W'' = CHR ''w''" "toLower CHR ''X'' = CHR ''x''"
  "toLower CHR ''Y'' = CHR ''y''" "toLower CHR ''Z'' = CHR ''z''" "toLower CHR ''a'' = CHR ''a''" "toLower CHR ''b'' = CHR ''b''"
  "toLower CHR ''c'' = CHR ''c''" "toLower CHR ''d'' = CHR ''d''" "toLower CHR ''e'' = CHR ''e''" "toLower CHR ''f'' = CHR ''f''"
  "toLower CHR ''g'' = CHR ''g''" "toLower CHR ''h'' = CHR ''h''" "toLower CHR ''i'' = CHR ''i''" "toLower CHR ''j'' = CHR ''j''"
  "toLower CHR ''k'' = CHR ''k''" "toLower CHR ''l'' = CHR ''l''" "toLower CHR ''m'' = CHR ''m''" "toLower CHR ''n'' = CHR ''n''"
  "toLower CHR ''o'' = CHR ''o''" "toLower CHR ''p'' = CHR ''p''" "toLower CHR ''q'' = CHR ''q''" "toLower CHR ''r'' = CHR ''r''"
  "toLower CHR ''s'' = CHR ''s''" "toLower CHR ''t'' = CHR ''t''" "toLower CHR ''u'' = CHR ''u''" "toLower CHR ''v'' = CHR ''v''"
  "toLower CHR ''w'' = CHR ''w''" "toLower CHR ''x'' = CHR ''x''" "toLower CHR ''y'' = CHR ''y''" "toLower CHR ''z'' = CHR ''z''"
  by (simp_all add: toLower_def)

lemmas json_text_eval =
  reference_json_def json_scan_def skip_ws_def is_space_def scan_number_def scan_digits_def
  is_digit_def number_value_def digit_val_def quote_def escape_ascii_def unescape_def
  hex_digit_def hex_val_def utf8_len_def between_def getu4_def prepend_def
  replacement_def utf8_def char_of_def bit_Suc_0_iff
  Itoa_def Sprintf_d_def decimal.simps digit_def

lemmas unmarshal_eval =
  Decode_Template_def Decode_TemplatesResponse_def Decode_PostmarkResponse_def
  Unmarshal_Template_def Unmarshal_TemplatesResponse_def Unmarshal_PostmarkResponse_def
  Template_member_def TemplatesResponse_member_def PostmarkResponse_member_def
  store_int_def store_string_def store_bool_def store_Templates_def into_def
  key_is_def equalFold_def toLower_letter
  zero_Template_def zero_TemplatesResponse_def zero_PostmarkResponse_def

lemmas operation_defs =
  CreateTemplate_def GetTemplate_def UpdateTemplate_def DeleteTemplate_def
  GetTemplates_def ValidateTemplate_def json_Marshal_def NewRequest_def

section \<open>Integers written and read back\<close>













section \<open>Strings written and read back\<close>















section \<open>Values written and read back\<close>


lemma skip_ws_delimiter [simp]:
  "skip_ws (CHR '','' # r) = CHR '','' # r" "skip_ws (CHR '']'' # r) = CHR '']'' # r"
  "skip_ws (CHR ''}'' # r) = CHR ''}'' # r" "skip_ws (CHR '':'' # r) = CHR '':'' # r"
  "skip_ws (CHR 0x22 # r) = CHR 0x22 # r"
  by (simp_all add: skip_ws_def is_space_def)














section \<open>A struct written and read back\<close>

lemma key_is_Template_tags:
  "key_is ''templateID'' ''templateID''"
  "\<not> key_is ''name'' ''templateID''" "key_is ''name'' ''name''"
  "\<not> key_is ''subject'' ''templateID''" "\<not> key_is ''subject'' ''name''"
  "key_is ''subject'' ''subject''"
  "\<not> key_is ''htmlBody'' ''templateID''" "\<not> key_is ''htmlBody'' ''name''"
  "\<not> key_is ''htmlBody'' ''subject''" "key_is ''htmlBody'' ''htmlBody''"
  "\<not> key_is ''textBody'' ''templateID''" "\<not> key_is ''textBody'' ''name''"
  "\<not> key_is ''textBody'' ''subject''" "\<not> key_is ''textBody'' ''htmlBody''"
  "key_is ''textBody'' ''textBody''"
  "\<not> key_is ''alias'' ''templateID''" "\<not> key_is ''alias'' ''name''"
  "\<not> key_is ''alias'' ''subject''" "\<not> key_is ''alias'' ''htmlBody''"
  "\<not> key_is ''alias'' ''textBody''" "key_is ''alias'' ''alias''"
  "\<not> key_is ''active'' ''templateID''" "\<not> key_is ''active'' ''name''"
  "\<not> key_is ''active'' ''subject''" "\<not> key_is ''active'' ''htmlBody''"
  "\<not> key_is ''active'' ''textBody''" "\<not> key_is ''active'' ''alias''"
  "key_is ''active'' ''active''"
  by (simp_all add: key_is_def equalFold_def toLower_letter)

lemmas unmarshal_steps =
  Unmarshal_Template_def Unmarshal_TemplatesResponse_def Unmarshal_PostmarkResponse_def
  Template_member_def TemplatesResponse_member_def PostmarkResponse_member_def
  store_int_def store_string_def store_bool_def store_Templates_def into_def

lemma Unmarshal_Template_json [simp]: "Unmarshal_Template (Template_json t) zero_Template = Inr t"
  using sint_ge [of "TemplateID t"] sint_lt [of "TemplateID t"]
  by (simp add: Template_json_def unmarshal_steps key_is_Template_tags zero_Template_def)

lemma Unmarshal_Templates_json: "Unmarshal_Templates (map Template_json ts) = Inr ts"
  by (induction ts) (simp_all add: into_def)

lemma members_append:
  "members f (xs @ ys) s = (case members f xs s of Inl e \<Rightarrow> Inl e | Inr s' \<Rightarrow> members f ys s')"
  by (induction xs arbitrary: s) (simp_all split: sum.splits)

lemma key_is_TemplatesResponse_tags:
  "key_is ''templates'' ''templates''"
  "\<not> key_is ''totalCount'' ''templates''" "key_is ''totalCount'' ''totalCount''"
  by (simp_all add: key_is_def equalFold_def toLower_letter)


lemma sint_in_range: "- (2 ^ 63) \<le> sint (x :: 64 word) \<and> sint x < 2 ^ 63"
  using sint_ge [of x] sint_lt [of x] by simp

section \<open>The client against the double\<close>










section \<open>Status and body of the response\<close>

lemma replies_canned: "replies (canned resp) w resp w"
  by (simp add: replies_def canned_def)

text \<open>
  C3. Every operation that is answered with a status other than 200 fails with the
  transport error: its text is \<^verbatim>\<open>unexpected status code: \<close>, the status in decimal,
  \<^verbatim>\<open>, response: \<close> and the body of the response as it was read, whatever the body is.
\<close>

theorem non_200_is_transport_error:
  assumes "replies Do w resp w'" and "StatusCode resp \<noteq> 200"
  shows "failure J Do apiToken c w =
           Some (errorString (''unexpected status code: '' @ Sprintf_d (StatusCode resp) @
                              '', response: '' @ RespBody resp))"
  using assms
  by (cases c) (simp_all add: failure_def operation_defs replies_def Errorf_status_def)

theorem non_200_is_transport_error_witness:
  "replies (canned \<lparr>StatusCode = 404, RespBody = ''<html>Not Found</html>''\<rparr>) () 
      \<lparr>StatusCode = 404, RespBody = ''<html>Not Found</html>''\<rparr> ()
   \<and> StatusCode \<lparr>StatusCode = 404, RespBody = ''<html>Not Found</html>''\<rparr> \<noteq> 200
   \<and> failure reference_json (canned \<lparr>StatusCode = 404, RespBody = ''<html>Not Found</html>''\<rparr>)
       ''token'' (Delete 36087634) ()
     = Some (errorString ''unexpected status code: 404, response: <html>Not Found</html>'')"
proof -
  let ?resp = "\<lparr>StatusCode = 404, RespBody = ''<html>Not Found</html>''\<rparr>"
  have r: "replies (canned ?resp) () ?resp ()"
    by (rule replies_canned)
  have s: "StatusCode ?resp \<noteq> 200"
    by simp
  show ?thesis
    using r s non_200_is_transport_error [OF r s, of reference_json "''token''" "Delete 36087634"]
    by (simp add: json_text_eval)
qed

text \<open>
  C2. Delete and Validate look at the status of the response only: answered with status
  200, both succeed, whatever the body of the response is, also when it carries a
  nonzero embedded error code.
\<close>

theorem delete_validate_succeed_on_200:
  assumes "replies Do w resp w'" and "StatusCode resp = 200"
  shows "DeleteTemplate Do apiToken templateID w = (None, w')
       \<and> ValidateTemplate J Do apiToken template w = (None, w')"
  using assms by (simp add: operation_defs replies_def)

theorem delete_validate_succeed_on_200_witness:
  "replies (canned \<lparr>StatusCode = 200, RespBody = ''{\"errorCode\":1101,\"message\":\"not found\"}''\<rparr>) ()
      \<lparr>StatusCode = 200, RespBody = ''{\"errorCode\":1101,\"message\":\"not found\"}''\<rparr> ()
   \<and> StatusCode \<lparr>StatusCode = 200, RespBody = ''{\"errorCode\":1101,\"message\":\"not found\"}''\<rparr> = 200
   \<and> Decode_PostmarkResponse reference_json ''{\"errorCode\":1101,\"message\":\"not found\"}''
       = Inr \<lparr>ResponseTemplateID = 0, ErrorCode = 1101, Message = ''not found''\<rparr>
   \<and> DeleteTemplate (canned \<lparr>StatusCode = 200, RespBody = ''{\"errorCode\":1101,\"message\":\"not found\"}''\<rparr>)
        ''token'' 36087634 () = (None, ())
   \<and> ValidateTemplate reference_json
        (canned \<lparr>StatusCode = 200, RespBody = ''{\"errorCode\":1101,\"message\":\"not found\"}''\<rparr>)
        ''token'' zero_Template () = (None, ())"
proof -
  let ?resp = "\<lparr>StatusCode = 200, RespBody = ''{\"errorCode\":1101,\"message\":\"not found\"}''\<rparr>"
  have r: "replies (canned ?resp) () ?resp ()"
    by (rule replies_canned)
  have s: "StatusCode ?resp = 200"
    by simp
  have d: "Decode_PostmarkResponse reference_json ''{\"errorCode\":1101,\"message\":\"not found\"}''
       = Inr \<lparr>ResponseTemplateID = 0, ErrorCode = 1101, Message = ''not found''\<rparr>"
    by (simp add: json_text_eval unmarshal_eval)
  note t = delete_validate_succeed_on_200 [OF r s, of "''token''" 36087634 reference_json zero_Template]
  show ?thesis
    by (intro conjI r s d conjunct1 [OF t] conjunct2 [OF t])
qed

text \<open>
  The same against the double of the remote service: Delete of an identifier that was
  never created is answered with status 200 and the embedded error code 1101, and is
  reported to the caller as a success.
\<close>

lemma delete_of_unknown_id_succeeds:
  "simulated_api reference_json
     \<lparr>Method = ''DELETE'', URL = ''https://api.postmarkapp.com/templates/36087634'',
      Header = [''Accept'' \<mapsto> [''application/json''],
                ''X-Postmark-Server-Token'' \<mapsto> [''token'']],
      Body = None\<rparr>
     \<lparr>server_token = ''token'', next_id = 1, stored = []\<rparr>
   = (Inr \<lparr>StatusCode = 200,
            RespBody = ''{\"errorCode\":1101,\"message\":\"Template not found\"}''\<rparr>,
      \<lparr>server_token = ''token'', next_id = 1, stored = []\<rparr>)"
  "DeleteTemplate (simulated_api reference_json) ''token'' 36087634
     \<lparr>server_token = ''token'', next_id = 1, stored = []\<rparr>
   = (None, \<lparr>server_token = ''token'', next_id = 1, stored = []\<rparr>)"
  by (simp_all add: operation_defs Header_Set_def simulated_api_def api_reply_def path_id_def
        json_text_eval)

section \<open>The embedded error code\<close>

text \<open>
  C4, as amended. Create and Update, answered with status 200 and a body that decodes,
  fail when the embedded error code is not zero, with an error whose text ends with the
  embedded message; when the code is zero, Create returns the identifier decoded from
  the response and Update succeeds. (Validate does not read the body: see C2.)
\<close>

theorem create_update_check_error_code:
  assumes "replies Do w resp w'" and "StatusCode resp = 200"
    and "Decode_PostmarkResponse J (RespBody resp) = Inr r"
  shows "CreateTemplate J Do apiToken template w =
           (if ErrorCode r \<noteq> 0
            then ((0, Some (errorString (''failed to create template: '' @ Message r))), w')
            else ((ResponseTemplateID r, None), w'))
       \<and> UpdateTemplate J Do apiToken template w =
           (if ErrorCode r \<noteq> 0
            then (Some (errorString (''failed to update template: '' @ Message r)), w')
            else (None, w'))"
  using assms by (simp add: operation_defs replies_def Errorf_s_def)

theorem create_update_check_error_code_witness:
  "replies (canned \<lparr>StatusCode = 200, RespBody = ''{\"errorCode\":1001,\"message\":\"Invalid template\"}''\<rparr>) ()
     \<lparr>StatusCode = 200, RespBody = ''{\"errorCode\":1001,\"message\":\"Invalid template\"}''\<rparr> ()
   \<and> StatusCode \<lparr>StatusCode = 200, RespBody = ''{\"errorCode\":1001,\"message\":\"Invalid template\"}''\<rparr> = 200
   \<and> Decode_PostmarkResponse reference_json
        (RespBody \<lparr>StatusCode = 200, RespBody = ''{\"errorCode\":1001,\"message\":\"Invalid template\"}''\<rparr>)
       = Inr \<lparr>ResponseTemplateID = 0, ErrorCode = 1001, Message = ''Invalid template''\<rparr>
   \<and> CreateTemplate reference_json
        (canned \<lparr>StatusCode = 200, RespBody = ''{\"errorCode\":1001,\"message\":\"Invalid template\"}''\<rparr>)
        ''token'' zero_Template ()
       = ((0, Some (errorString ''failed to create template: Invalid template'')), ())
   \<and> replies (canned \<lparr>StatusCode = 200, RespBody = ''{\"templateID\":36087634,\"errorCode\":0,\"message\":\"OK\"}''\<rparr>) ()
     \<lparr>StatusCode = 200, RespBody = ''{\"templateID\":36087634,\"errorCode\":0,\"message\":\"OK\"}''\<rparr> ()
   \<and> Decode_PostmarkResponse reference_json
        (RespBody \<lparr>StatusCode = 200, RespBody = ''{\"templateID\":36087634,\"errorCode\":0,\"message\":\"OK\"}''\<rparr>)
       = Inr \<lparr>ResponseTemplateID = 36087634, ErrorCode = 0, Message = ''OK''\<rparr>
   \<and> CreateTemplate reference_json
        (canned \<lparr>StatusCode = 200, RespBody = ''{\"templateID\":36087634,\"errorCode\":0,\"message\":\"OK\"}''\<rparr>)
        ''token'' zero_Template ()
       = ((36087634, None), ())"
proof -
  let ?bad = "\<lparr>StatusCode = 200, RespBody = ''{\"errorCode\":1001,\"message\":\"Invalid template\"}''\<rparr>"
  let ?ok = "\<lparr>StatusCode = 200, RespBody = ''{\"templateID\":36087634,\"errorCode\":0,\"message\":\"OK\"}''\<rparr>"
  have r1: "replies (canned ?bad) () ?bad ()" and r2: "replies (canned ?ok) () ?ok ()"
    by (rule replies_canned)+
  have s1: "StatusCode ?bad = 200" and s2: "StatusCode ?ok = 200"
    by simp_all
  have d1: "Decode_PostmarkResponse reference_json (RespBody ?bad)
              = Inr \<lparr>ResponseTemplateID = 0, ErrorCode = 1001, Message = ''Invalid template''\<rparr>"
    by (simp add: json_text_eval unmarshal_eval)
  have d2: "Decode_PostmarkResponse reference_json (RespBody ?ok)
              = Inr \<lparr>ResponseTemplateID = 36087634, ErrorCode = 0, Message = ''OK''\<rparr>"
    by (simp add: json_text_eval unmarshal_eval)
  have c1: "CreateTemplate reference_json (canned ?bad) ''token'' zero_Template ()
              = ((0, Some (errorString ''failed to create template: Invalid template'')), ())"
    using create_update_check_error_code [OF r1 s1 d1, of "''token''" zero_Template] by simp
  have c2: "CreateTemplate reference_json (canned ?ok) ''token'' zero_Template ()
              = ((36087634, None), ())"
    using create_update_check_error_code [OF r2 s2 d2, of "''token''" zero_Template] by simp
  show ?thesis
    by (intro conjI r1 s1 d1 c1 r2 d2 c2)
qed

text \<open>
  C4 as stated fails for Validate: answered with status 200 and a body whose embedded
  error code is 1001, it succeeds.
\<close>

theorem validate_ignores_error_code_counterexample:
  "Decode_PostmarkResponse reference_json ''{\"errorCode\":1001,\"message\":\"Invalid template\"}''
     = Inr \<lparr>ResponseTemplateID = 0, ErrorCode = 1001, Message = ''Invalid template''\<rparr>
   \<and> ValidateTemplate reference_json
        (canned \<lparr>StatusCode = 200, RespBody = ''{\"errorCode\":1001,\"message\":\"Invalid template\"}''\<rparr>)
        ''token''
        \<lparr>TemplateID = 0, Name = ''Password Reset'', Subject = ''Reset your password'',
         HtmlBody = ''{{#each'', TextBody = [], Alias = [], Active = False\<rparr> ()
       = (None, ())"
  by (simp add: json_text_eval unmarshal_eval operation_defs canned_def)

section \<open>A body that does not decode\<close>

text \<open>
  C5. Create, Get, Update and List, answered with status 200 and a body that does not
  decode into the struct the operation expects, fail with the decode error: its text is
  \<^verbatim>\<open>failed to decode response: \<close> followed by the text of the decoder's error, and it
  wraps the decoder's error.
\<close>

theorem undecodable_body_is_decode_error:
  assumes "replies Do w resp w'" and "StatusCode resp = 200"
  shows "(\<forall>e. Decode_PostmarkResponse J (RespBody resp) = Inl e \<longrightarrow>
            failure J Do apiToken (Create template) w
              = Some (wrapError (''failed to decode response: '' @ Error e) e)
          \<and> failure J Do apiToken (Update template) w
              = Some (wrapError (''failed to decode response: '' @ Error e) e))
       \<and> (\<forall>e. Decode_Template J (RespBody resp) = Inl e \<longrightarrow>
            failure J Do apiToken (Get templateID) w
              = Some (wrapError (''failed to decode response: '' @ Error e) e))
       \<and> (\<forall>e. Decode_TemplatesResponse J (RespBody resp) = Inl e \<longrightarrow>
            failure J Do apiToken (List offset count') w
              = Some (wrapError (''failed to decode response: '' @ Error e) e))"
  using assms by (simp add: failure_def operation_defs replies_def Errorf_w_def)

theorem undecodable_body_is_decode_error_witness:
  "replies (canned \<lparr>StatusCode = 200, RespBody = ''{\"templateID\":\"abc\"}''\<rparr>) ()
     \<lparr>StatusCode = 200, RespBody = ''{\"templateID\":\"abc\"}''\<rparr> ()
   \<and> StatusCode \<lparr>StatusCode = 200, RespBody = ''{\"templateID\":\"abc\"}''\<rparr> = 200
   \<and> Decode_PostmarkResponse reference_json (RespBody \<lparr>StatusCode = 200, RespBody = ''{\"templateID\":\"abc\"}''\<rparr>)
       = Inl (UnmarshalTypeError ''string'' ''PostmarkResponse.templateID'' ''int64'')
   \<and> Decode_Template reference_json (RespBody \<lparr>StatusCode = 200, RespBody = ''{\"templateID\":\"abc\"}''\<rparr>)
       = Inl (UnmarshalTypeError ''string'' ''Template.templateID'' ''int64'')
   \<and> Decode_TemplatesResponse reference_json (RespBody \<lparr>StatusCode = 200, RespBody = ''<html>''\<rparr>)
       = Inl (errorString ''invalid character in JSON input'')
   \<and> failure reference_json (canned \<lparr>StatusCode = 200, RespBody = ''{\"templateID\":\"abc\"}''\<rparr>)
        ''token'' (Create zero_Template) ()
       = Some (wrapError
           (''failed to decode response: json: cannot unmarshal string into Go struct field '' @
            ''PostmarkResponse.templateID of type int64'')
           (UnmarshalTypeError ''string'' ''PostmarkResponse.templateID'' ''int64''))
   \<and> failure reference_json (canned \<lparr>StatusCode = 200, RespBody = ''{\"templateID\":\"abc\"}''\<rparr>)
        ''token'' (Get 7) ()
       = Some (wrapError
           (''failed to decode response: json: cannot unmarshal string into Go struct field '' @
            ''Template.templateID of type int64'')
           (UnmarshalTypeError ''string'' ''Template.templateID'' ''int64''))
   \<and> failure reference_json (canned \<lparr>StatusCode = 200, RespBody = ''<html>''\<rparr>)
        ''token'' (List 0 10) ()
       = Some (wrapError ''failed to decode response: invalid character in JSON input''
                (errorString ''invalid character in JSON input''))"
proof -
  let ?resp = "\<lparr>StatusCode = 200, RespBody = ''{\"templateID\":\"abc\"}''\<rparr>"
  let ?html = "\<lparr>StatusCode = 200, RespBody = ''<html>''\<rparr>"
  have r: "replies (canned ?resp) () ?resp ()" and r': "replies (canned ?html) () ?html ()"
    by (rule replies_canned)+
  have s: "StatusCode ?resp = 200" and s': "StatusCode ?html = 200"
    by simp_all
  have d1: "Decode_PostmarkResponse reference_json (RespBody ?resp)
       = Inl (UnmarshalTypeError ''string'' ''PostmarkResponse.templateID'' ''int64'')"
    by (simp add: json_text_eval unmarshal_eval)
  have d2: "Decode_Template reference_json (RespBody ?resp)
       = Inl (UnmarshalTypeError ''string'' ''Template.templateID'' ''int64'')"
    by (simp add: json_text_eval unmarshal_eval)
  have d3: "Decode_TemplatesResponse reference_json (RespBody ?html)
       = Inl (errorString ''invalid character in JSON input'')"
    by (simp add: json_text_eval unmarshal_eval)
  note t = undecodable_body_is_decode_error [OF r s, of reference_json "''token''" zero_Template 7 0 10]
  note t' = undecodable_body_is_decode_error [OF r' s', of reference_json "''token''" zero_Template 7 0 10]
  have f1: "failure reference_json (canned ?resp) ''token'' (Create zero_Template) ()
       = Some (wrapError
           (''failed to decode response: json: cannot unmarshal string into Go struct field '' @
            ''PostmarkResponse.templateID of type int64'')
           (UnmarshalTypeError ''string'' ''PostmarkResponse.templateID'' ''int64''))"
    using t d1 by (simp add: UnmarshalTypeError_def)
  have f2: "failure reference_json (canned ?resp) ''token'' (Get 7) ()
       = Some (wrapError
           (''failed to decode response: json: cannot unmarshal string into Go struct field '' @
            ''Template.templateID of type int64'')
           (UnmarshalTypeError ''string'' ''Template.templateID'' ''int64''))"
    using t d2 by (simp add: UnmarshalTypeError_def)
  have f3: "failure reference_json (canned ?html) ''token'' (List 0 10) ()
       = Some (wrapError ''failed to decode response: invalid character in JSON input''
                (errorString ''invalid character in JSON input''))"
    using t' d3 by simp
  show ?thesis
    by (intro conjI r s d1 d2 d3 f1 f2 f3)
qed

section \<open>Results of List\<close>

text \<open>
  C1, as amended. List, answered with status 200 and a body that decodes, returns the
  sequence of templates of the decoded response, in order, and no error; the total
  count of the response is decoded and not returned.
\<close>

theorem list_returns_templates_only:
  assumes "replies Do w resp w'" and "StatusCode resp = 200"
    and "Decode_TemplatesResponse J (RespBody resp) = Inr r"
  shows "GetTemplates J Do apiToken offset count' w = ((Templates r, None), w')"
  using assms by (simp add: operation_defs replies_def)

theorem list_returns_templates_only_witness:
  "replies (canned \<lparr>StatusCode = 200,
       RespBody = ''{\"totalCount\":25,\"templates\":[{\"templateID\":7,\"name\":\"Welcome\",\"active\":true}]}''\<rparr>) ()
     \<lparr>StatusCode = 200,
       RespBody = ''{\"totalCount\":25,\"templates\":[{\"templateID\":7,\"name\":\"Welcome\",\"active\":true}]}''\<rparr> ()
   \<and> Decode_TemplatesResponse reference_json
        ''{\"totalCount\":25,\"templates\":[{\"templateID\":7,\"name\":\"Welcome\",\"active\":true}]}''
       = Inr \<lparr>Templates = Some [zero_Template\<lparr>TemplateID := 7, Name := ''Welcome'', Active := True\<rparr>],
              TotalCount = 25\<rparr>
   \<and> GetTemplates reference_json
        (canned \<lparr>StatusCode = 200,
           RespBody = ''{\"totalCount\":25,\"templates\":[{\"templateID\":7,\"name\":\"Welcome\",\"active\":true}]}''\<rparr>)
        ''token'' 0 1 ()
       = ((Some [zero_Template\<lparr>TemplateID := 7, Name := ''Welcome'', Active := True\<rparr>], None), ())"
proof -
  let ?resp = "\<lparr>StatusCode = 200,
       RespBody = ''{\"totalCount\":25,\"templates\":[{\"templateID\":7,\"name\":\"Welcome\",\"active\":true}]}''\<rparr>"
  have r: "replies (canned ?resp) () ?resp ()"
    by (rule replies_canned)
  have s: "StatusCode ?resp = 200"
    by simp
  have d: "Decode_TemplatesResponse reference_json (RespBody ?resp)
       = Inr \<lparr>Templates = Some [zero_Template\<lparr>TemplateID := 7, Name := ''Welcome'', Active := True\<rparr>],
              TotalCount = 25\<rparr>"
    by (simp add: json_text_eval unmarshal_eval)
  show ?thesis
    using r d list_returns_templates_only [OF r s d, of "''token''" 0 1] by simp
qed

text \<open>
  C1 as stated fails: two answers that differ only in \<^verbatim>\<open>totalCount\<close> give the caller the
  same result, so the result does not carry the total count.
\<close>

theorem list_drops_total_count_counterexample:
  "Decode_TemplatesResponse reference_json ''{\"templates\":[{\"name\":\"Welcome\"}],\"totalCount\":1}''
     = Inr \<lparr>Templates = Some [zero_Template\<lparr>Name := ''Welcome''\<rparr>], TotalCount = 1\<rparr>
   \<and> Decode_TemplatesResponse reference_json ''{\"templates\":[{\"name\":\"Welcome\"}],\"totalCount\":25}''
     = Inr \<lparr>Templates = Some [zero_Template\<lparr>Name := ''Welcome''\<rparr>], TotalCount = 25\<rparr>
   \<and> GetTemplates reference_json
        (canned \<lparr>StatusCode = 200, RespBody = ''{\"templates\":[{\"name\":\"Welcome\"}],\"totalCount\":1}''\<rparr>)
        ''token'' 0 1 ()
     = ((Some [zero_Template\<lparr>Name := ''Welcome''\<rparr>], None), ())
   \<and> GetTemplates reference_json
        (canned \<lparr>StatusCode = 200, RespBody = ''{\"templates\":[{\"name\":\"Welcome\"}],\"totalCount\":25}''\<rparr>)
        ''token'' 0 1 ()
     = ((Some [zero_Template\<lparr>Name := ''Welcome''\<rparr>], None), ())"
  by (simp add: json_text_eval unmarshal_eval operation_defs canned_def)

text \<open>
  C6, as amended. List with \<^verbatim>\<open>count = 0\<close> or a negative offset, answered with a status
  other than 200, fails with the transport error and returns no templates.
\<close>

theorem list_non_200_is_transport_error:
  assumes "count' = 0 \<or> sint offset < 0"
    and "replies Do w resp w'" and "StatusCode resp \<noteq> 200"
  shows "GetTemplates J Do apiToken offset count' w =
           ((None, Some (errorString (''unexpected status code: '' @ Sprintf_d (StatusCode resp) @
                                      '', response: '' @ RespBody resp))), w')"
  using assms by (simp add: operation_defs replies_def Errorf_status_def)

theorem list_non_200_is_transport_error_witness:
  "((0 :: go_int) = 0 \<or> sint (- 1 :: go_int) < 0)
   \<and> replies (canned \<lparr>StatusCode = 422, RespBody = ''{\"errorCode\":300,\"message\":\"Invalid count\"}''\<rparr>) ()
        \<lparr>StatusCode = 422, RespBody = ''{\"errorCode\":300,\"message\":\"Invalid count\"}''\<rparr> ()
   \<and> StatusCode \<lparr>StatusCode = 422, RespBody = ''{\"errorCode\":300,\"message\":\"Invalid count\"}''\<rparr> \<noteq> 200
   \<and> GetTemplates reference_json
        (canned \<lparr>StatusCode = 422, RespBody = ''{\"errorCode\":300,\"message\":\"Invalid count\"}''\<rparr>)
        ''token'' (- 1) 0 ()
       = ((None, Some (errorString
            ''unexpected status code: 422, response: {\"errorCode\":300,\"message\":\"Invalid count\"}'')), ())"
proof -
  let ?resp = "\<lparr>StatusCode = 422, RespBody = ''{\"errorCode\":300,\"message\":\"Invalid count\"}''\<rparr>"
  have c: "(0 :: go_int) = 0 \<or> sint (- 1 :: go_int) < 0"
    by simp
  have r: "replies (canned ?resp) () ?resp ()"
    by (rule replies_canned)
  have s: "StatusCode ?resp \<noteq> 200"
    by simp
  show ?thesis
    using c r s list_non_200_is_transport_error [OF c r s, of reference_json "''token''"]
    by (simp add: json_text_eval)
qed

text \<open>
  C6 as stated fails: answered with status 200 and a body that carries an error code and
  a message, List with \<^verbatim>\<open>count = 0\<close> or a negative offset returns no templates and no
  error.
\<close>

theorem list_error_body_is_empty_success_counterexample:
  "Decode_PostmarkResponse reference_json ''{\"errorCode\":300,\"message\":\"Invalid count\"}''
     = Inr \<lparr>ResponseTemplateID = 0, ErrorCode = 300, Message = ''Invalid count''\<rparr>
   \<and> GetTemplates reference_json
        (canned \<lparr>StatusCode = 200, RespBody = ''{\"errorCode\":300,\"message\":\"Invalid count\"}''\<rparr>)
        ''token'' 0 0 ()
     = ((None, None), ())
   \<and> GetTemplates reference_json
        (canned \<lparr>StatusCode = 200, RespBody = ''{\"errorCode\":300,\"message\":\"Invalid count\"}''\<rparr>)
        ''token'' (- 1) 10 ()
     = ((None, None), ())"
  by (simp add: json_text_eval unmarshal_eval operation_defs canned_def)

section \<open>Zero values on errors\<close>

text \<open>
  C10. When CreateTemplate returns an error its identifier is 0; when GetTemplate or
  GetTemplates returns an error its result is \<^verbatim>\<open>nil\<close>; when GetTemplate returns no
  error its result is not \<^verbatim>\<open>nil\<close>.
\<close>

theorem error_comes_with_zero_value:
  "(snd (fst (CreateTemplate J Do apiToken template w)) \<noteq> None \<longrightarrow>
      fst (fst (CreateTemplate J Do apiToken template w)) = 0)
   \<and> (snd (fst (GetTemplate J Do apiToken templateID w)) \<noteq> None \<longrightarrow>
      fst (fst (GetTemplate J Do apiToken templateID w)) = None)
   \<and> (snd (fst (GetTemplates J Do apiToken offset count' w)) \<noteq> None \<longrightarrow>
      fst (fst (GetTemplates J Do apiToken offset count' w)) = None)
   \<and> (snd (fst (GetTemplate J Do apiToken templateID w)) = None \<longrightarrow>
      fst (fst (GetTemplate J Do apiToken templateID w)) \<noteq> None)"
  by (simp add: operation_defs Let_def split: sum.splits prod.splits)

theorem error_comes_with_zero_value_witness:
  "snd (fst (CreateTemplate reference_json (canned \<lparr>StatusCode = 500, RespBody = ''{\"templateID\":9}''\<rparr>)
              ''token'' zero_Template ())) \<noteq> None
   \<and> fst (fst (CreateTemplate reference_json (canned \<lparr>StatusCode = 500, RespBody = ''{\"templateID\":9}''\<rparr>)
              ''token'' zero_Template ())) = 0
   \<and> snd (fst (GetTemplate reference_json (canned \<lparr>StatusCode = 500, RespBody = ''{\"templateID\":9}''\<rparr>)
              ''token'' 9 ())) \<noteq> None
   \<and> fst (fst (GetTemplate reference_json (canned \<lparr>StatusCode = 500, RespBody = ''{\"templateID\":9}''\<rparr>)
              ''token'' 9 ())) = None
   \<and> snd (fst (GetTemplates reference_json (canned \<lparr>StatusCode = 500, RespBody = ''{\"templateID\":9}''\<rparr>)
              ''token'' 0 10 ())) \<noteq> None
   \<and> fst (fst (GetTemplates reference_json (canned \<lparr>StatusCode = 500, RespBody = ''{\"templateID\":9}''\<rparr>)
              ''token'' 0 10 ())) = None
   \<and> snd (fst (GetTemplate reference_json (canned \<lparr>StatusCode = 200, RespBody = ''{\"templateID\":9}''\<rparr>)
              ''token'' 9 ())) = None
   \<and> fst (fst (GetTemplate reference_json (canned \<lparr>StatusCode = 200, RespBody = ''{\"templateID\":9}''\<rparr>)
              ''token'' 9 ())) \<noteq> None"
proof -
  let ?bad = "canned \<lparr>StatusCode = 500, RespBody = ''{\"templateID\":9}''\<rparr> :: unit transport"
  let ?ok = "canned \<lparr>StatusCode = 200, RespBody = ''{\"templateID\":9}''\<rparr> :: unit transport"
  have e1: "snd (fst (CreateTemplate reference_json ?bad ''token'' zero_Template ())) \<noteq> None"
    by (simp add: operation_defs canned_def)
  have e2: "snd (fst (GetTemplate reference_json ?bad ''token'' 9 ())) \<noteq> None"
    by (simp add: operation_defs canned_def)
  have e3: "snd (fst (GetTemplates reference_json ?bad ''token'' 0 10 ())) \<noteq> None"
    by (simp add: operation_defs canned_def)
  have d: "Decode_Template reference_json ''{\"templateID\":9}'' = Inr (zero_Template\<lparr>TemplateID := 9\<rparr>)"
    by (simp add: json_text_eval unmarshal_eval)
  have e4: "snd (fst (GetTemplate reference_json ?ok ''token'' 9 ())) = None"
    using d by (simp add: operation_defs canned_def)
  note bad = error_comes_with_zero_value [of reference_json ?bad "''token''" zero_Template "()" 9 0 10]
  note ok = error_comes_with_zero_value [of reference_json ?ok "''token''" zero_Template "()" 9 0 10]
  have c1: "fst (fst (CreateTemplate reference_json ?bad ''token'' zero_Template ())) = 0"
    by (rule mp [OF conjunct1 [OF bad] e1])
  have c2: "fst (fst (GetTemplate reference_json ?bad ''token'' 9 ())) = None"
    by (rule mp [OF conjunct1 [OF conjunct2 [OF bad]] e2])
  have c3: "fst (fst (GetTemplates reference_json ?bad ''token'' 0 10 ())) = None"
    by (rule mp [OF conjunct1 [OF conjunct2 [OF conjunct2 [OF bad]]] e3])
  have c4: "fst (fst (GetTemplate reference_json ?ok ''token'' 9 ())) \<noteq> None"
    by (rule mp [OF conjunct2 [OF conjunct2 [OF conjunct2 [OF ok]]] e4])
  show ?thesis
    by (intro conjI e1 c1 e2 c2 e3 c3 e4 c4)
qed

section \<open>The requests\<close>

text \<open>
  C9, as amended. Every operation issues exactly one request. It carries the credential
  in the header \<^verbatim>\<open>X-Postmark-Server-Token\<close> and \<^verbatim>\<open>Accept: application/json\<close>; it carries
  \<^verbatim>\<open>Content-Type: application/json\<close> exactly when the call sends a body (Create, Update,
  Validate), and no other header. Its method, URL and body are the same for every
  credential: the credential is in no query parameter and in no field of the body.
\<close>

theorem requests_carry_credential_and_accept:
  "(\<exists>req. issued J Do apiToken c w = [req]
      \<and> Header req ''X-Postmark-Server-Token'' = Some [apiToken]
      \<and> Header req ''Accept'' = Some [''application/json'']
      \<and> Header req ''Content-Type'' = (if sends_body c then Some [''application/json''] else None)
      \<and> dom (Header req) = {''X-Postmark-Server-Token'', ''Accept''} \<union>
                             (if sends_body c then {''Content-Type''} else {}))
   \<and> map (\<lambda>req. (Method req, URL req, Body req)) (issued J Do apiToken c w)
     = map (\<lambda>req. (Method req, URL req, Body req)) (issued J Do' apiToken' c w')"
  by (cases c)
     (auto simp: issued_def after_def recording_def operation_defs Header_Set_def Let_def
           split: prod.splits sum.splits)

theorem requests_carry_credential_and_accept_witness:
  "map (\<lambda>req. (Method req, URL req, Body req, Header req ''X-Postmark-Server-Token'',
               Header req ''Accept'', Header req ''Content-Type''))
     (issued reference_json (canned \<lparr>StatusCode = 500, RespBody = []\<rparr>) ''s3cr3t''
        (Create \<lparr>TemplateID = 0, Name = ''Welcome'', Subject = ''Hi'', HtmlBody = ''Hello {{name}}'',
                 TextBody = [], Alias = [], Active = False\<rparr>) ())
   = [(''POST'', ''https://api.postmarkapp.com/templates'',
       Some ''{\"name\":\"Welcome\",\"subject\":\"Hi\",\"htmlBody\":\"Hello {{name}}\",\"textBody\":\"\"}'',
       Some [''s3cr3t''], Some [''application/json''], Some [''application/json''])]"
proof -
  let ?Do = "canned \<lparr>StatusCode = 500, RespBody = []\<rparr> :: unit transport"
  let ?t = "\<lparr>TemplateID = 0, Name = ''Welcome'', Subject = ''Hi'', HtmlBody = ''Hello {{name}}'',
                 TextBody = [], Alias = [], Active = False\<rparr>"
  obtain req where r: "issued reference_json ?Do ''s3cr3t'' (Create ?t) () = [req]"
    and h: "Header req ''X-Postmark-Server-Token'' = Some [''s3cr3t'']"
      "Header req ''Accept'' = Some [''application/json'']"
      "Header req ''Content-Type'' = Some [''application/json'']"
    using conjunct1 [OF requests_carry_credential_and_accept
                        [of reference_json ?Do "''s3cr3t''" "Create ?t" "()"]]
    by auto
  have "map (\<lambda>req. (Method req, URL req, Body req)) (issued reference_json ?Do ''s3cr3t'' (Create ?t) ())
      = [(''POST'', ''https://api.postmarkapp.com/templates'',
       Some ''{\"name\":\"Welcome\",\"subject\":\"Hi\",\"htmlBody\":\"Hello {{name}}\",\"textBody\":\"\"}'')]"
    by (simp add: issued_def after_def recording_def operation_defs Header_Set_def canned_def
        json_text_eval Template_json_def Let_def)
  with r h show ?thesis
    by simp
qed

text \<open>
  C9 as stated fails for Delete, a call that changes the remote state: its request has
  no \<^verbatim>\<open>Content-Type\<close> header (and no body).
\<close>

theorem delete_has_no_content_type_counterexample:
  "map (\<lambda>req. (Method req, URL req, Body req, Header req ''Content-Type''))
     (issued reference_json (canned \<lparr>StatusCode = 200, RespBody = []\<rparr>) ''token'' (Delete 36087634) ())
   = [(''DELETE'', ''https://api.postmarkapp.com/templates/36087634'', None, None)]"
  by (simp add: issued_def after_def recording_def operation_defs Header_Set_def canned_def
        json_text_eval)

section \<open>The wire format\<close>

text \<open>
  C8. A Template is written with the member names \<^verbatim>\<open>templateID\<close>, \<^verbatim>\<open>name\<close>,
  \<^verbatim>\<open>subject\<close>, \<^verbatim>\<open>htmlBody\<close>, \<^verbatim>\<open>textBody\<close>, \<^verbatim>\<open>alias\<close>, \<^verbatim>\<open>active\<close>, in this order;
  \<^verbatim>\<open>alias\<close> is written exactly when it is not empty and \<^verbatim>\<open>active\<close> exactly when it is
  true, so a Template whose \<^verbatim>\<open>active\<close> is false is written as the bytes of the object
  without that member. What is written is read back as the same Template, and an
  explicit \<^verbatim>\<open>"active": false\<close> is read as false too. A list response is read from the
  members \<^verbatim>\<open>templates\<close> and \<^verbatim>\<open>totalCount\<close>.
\<close>

theorem template_wire_format:
  "map fst (members_of (Template_json t)) =
     (if TemplateID t = 0 then [] else [''templateID'']) @
     [''name'', ''subject'', ''htmlBody'', ''textBody''] @
     (if Alias t = [] then [] else [''alias'']) @
     (if Active t then [''active''] else [])
   \<and> (''alias'' \<in> set (map fst (members_of (Template_json t)))) = (Alias t \<noteq> [])
   \<and> (''active'' \<in> set (map fst (members_of (Template_json t)))) = Active t
   \<and> json_Marshal J (t\<lparr>Active := False\<rparr>) =
       Inr (emit J (JObject (filter (\<lambda>kv. fst kv \<noteq> ''active'') (members_of (Template_json t)))))
   \<and> Unmarshal_Template (Template_json t) zero_Template = Inr t
   \<and> Unmarshal_Template
        (JObject (members_of (Template_json (t\<lparr>Active := False\<rparr>)) @ [(''active'', JBool False)]))
        zero_Template = Inr (t\<lparr>Active := False\<rparr>)
   \<and> Unmarshal_TemplatesResponse
        (JObject [(''templates'', JArray (map Template_json ts)), (''totalCount'', JInt (sint n))])
        zero_TemplatesResponse = Inr \<lparr>Templates = Some ts, TotalCount = n\<rparr>"
proof -
  have names: "map fst (members_of (Template_json t)) =
     (if TemplateID t = 0 then [] else [''templateID'']) @
     [''name'', ''subject'', ''htmlBody'', ''textBody''] @
     (if Alias t = [] then [] else [''alias'']) @
     (if Active t then [''active''] else [])"
    by (simp add: Template_json_def)
  have omit_alias: "(''alias'' \<in> set (map fst (members_of (Template_json t)))) = (Alias t \<noteq> [])"
    and omit_active: "(''active'' \<in> set (map fst (members_of (Template_json t)))) = Active t"
    unfolding names by simp_all
  have bytes: "json_Marshal J (t\<lparr>Active := False\<rparr>) =
       Inr (emit J (JObject (filter (\<lambda>kv. fst kv \<noteq> ''active'') (members_of (Template_json t)))))"
    by (simp add: json_Marshal_def Template_json_def)
  have rt: "Unmarshal_Template (Template_json t) zero_Template = Inr t"
    by simp
  have "members Template_member (members_of (Template_json (t\<lparr>Active := False\<rparr>))) zero_Template
          = Inr (t\<lparr>Active := False\<rparr>)"
    using Unmarshal_Template_json [of "t\<lparr>Active := False\<rparr>"]
    by (simp add: Unmarshal_Template_def Template_json_def)
  then have explicit: "Unmarshal_Template
        (JObject (members_of (Template_json (t\<lparr>Active := False\<rparr>)) @ [(''active'', JBool False)]))
        zero_Template = Inr (t\<lparr>Active := False\<rparr>)"
    by (simp add: Unmarshal_Template_def members_append Template_member_def key_is_Template_tags
          store_bool_def into_def)
  have lst: "Unmarshal_TemplatesResponse
        (JObject [(''templates'', JArray (map Template_json ts)), (''totalCount'', JInt (sint n))])
        zero_TemplatesResponse = Inr \<lparr>Templates = Some ts, TotalCount = n\<rparr>"
    using sint_in_range [of n]
    by (simp add: Unmarshal_TemplatesResponse_def TemplatesResponse_member_def
          key_is_TemplatesResponse_tags store_Templates_def store_int_def into_def
          Unmarshal_Templates_json zero_TemplatesResponse_def)
  show ?thesis
    by (intro conjI names omit_alias omit_active bytes rt explicit lst)
qed

theorem template_wire_format_witness:
  "json_Marshal reference_json
     \<lparr>TemplateID = 0, Name = ''Password Reset'', Subject = ''Reset your password'',
      HtmlBody = ''Click {{reset_link}}'', TextBody = ''{{reset_link}}'', Alias = [],
      Active = False\<rparr>
   = Inr (''{\"name\":\"Password Reset\",\"subject\":\"Reset your password\",'' @
          ''\"htmlBody\":\"Click {{reset_link}}\",\"textBody\":\"{{reset_link}}\"}'')
   \<and> map fst (members_of (Template_json
       \<lparr>TemplateID = 7, Name = ''Password Reset'', Subject = ''Reset your password'',
        HtmlBody = ''Click {{reset_link}}'', TextBody = ''{{reset_link}}'', Alias = ''reset'',
        Active = True\<rparr>))
     = [''templateID'', ''name'', ''subject'', ''htmlBody'', ''textBody'', ''alias'', ''active'']
   \<and> Decode_Template reference_json ''{\"name\":\"Welcome\",\"active\":false}''
     = Inr (zero_Template\<lparr>Name := ''Welcome''\<rparr>)
   \<and> Decode_Template reference_json ''{\"name\":\"Welcome\"}''
     = Inr (zero_Template\<lparr>Name := ''Welcome''\<rparr>)"
proof -
  let ?t = "\<lparr>TemplateID = 0, Name = ''Password Reset'', Subject = ''Reset your password'',
      HtmlBody = ''Click {{reset_link}}'', TextBody = ''{{reset_link}}'', Alias = [],
      Active = False\<rparr>"
  let ?u = "\<lparr>TemplateID = 7, Name = ''Password Reset'', Subject = ''Reset your password'',
        HtmlBody = ''Click {{reset_link}}'', TextBody = ''{{reset_link}}'', Alias = ''reset'',
        Active = True\<rparr>"
  note t = template_wire_format [of ?t reference_json "[]" 0]
  have m: "json_Marshal reference_json ?t
   = Inr (''{\"name\":\"Password Reset\",\"subject\":\"Reset your password\",'' @
          ''\"htmlBody\":\"Click {{reset_link}}\",\"textBody\":\"{{reset_link}}\"}'')"
    using conjunct1 [OF conjunct2 [OF conjunct2 [OF conjunct2 [OF t]]]]
    by (simp add: Template_json_def json_text_eval)
  have k: "map fst (members_of (Template_json ?u))
     = [''templateID'', ''name'', ''subject'', ''htmlBody'', ''textBody'', ''alias'', ''active'']"
    using conjunct1 [OF template_wire_format [of ?u reference_json "[]" 0]] by simp
  have d1: "Decode_Template reference_json ''{\"name\":\"Welcome\",\"active\":false}''
     = Inr (zero_Template\<lparr>Name := ''Welcome''\<rparr>)"
    by (simp add: json_text_eval unmarshal_eval)
  have d2: "Decode_Template reference_json ''{\"name\":\"Welcome\"}''
     = Inr (zero_Template\<lparr>Name := ''Welcome''\<rparr>)"
    by (simp add: json_text_eval unmarshal_eval)
  show ?thesis
    by (intro conjI m k d1 d2)
qed

section \<open>Create, then Get\<close>




end
